theory Spec2Isabelle
  imports Complex_Main
begin

section \<open>JavaScript values stored in a rating field\<close>

text \<open>
  The route handlers read their request body with \<^verbatim>\<open>req.json()\<close>, whose type is
  \<^verbatim>\<open>any\<close>, and the document store has no schema: a stored \<^verbatim>\<open>rating\<close> is whatever
  JSON value passed the handler's checks. The model keeps the primitive values.
  A finite number is an exact rational: rounding error and overflow of IEEE doubles,
  and the sign of zero, are not modelled. Objects and arrays as ratings are not modelled.
\<close>

datatype jsnum = NaN | PInf | NInf | Fin rat

datatype jsval = JUndefined | JNull | JBool bool | JNumber jsnum | JString string

text \<open>Number addition \<^verbatim>\<open>a + b\<close> and the division \<^verbatim>\<open>x / n\<close> by an array length.\<close>

fun jsAdd :: "jsnum \<Rightarrow> jsnum \<Rightarrow> jsnum" where
  "jsAdd NaN b = NaN"
| "jsAdd a NaN = NaN"
| "jsAdd PInf NInf = NaN"
| "jsAdd NInf PInf = NaN"
| "jsAdd PInf b = PInf"
| "jsAdd a PInf = PInf"
| "jsAdd NInf b = NInf"
| "jsAdd a NInf = NInf"
| "jsAdd (Fin a) (Fin b) = Fin (a + b)"

fun jsDivNat :: "jsnum \<Rightarrow> nat \<Rightarrow> jsnum" where
  "jsDivNat NaN n = NaN"
| "jsDivNat PInf n = PInf"
| "jsDivNat NInf n = NInf"
| "jsDivNat (Fin a) n =
     (if n = 0 then (if a = 0 then NaN else if 0 < a then PInf else NInf)
      else Fin (a / of_nat n))"

text \<open>The comparison \<^verbatim>\<open>a < b\<close> on numbers: false as soon as one side is NaN.\<close>

fun jsLess :: "jsnum \<Rightarrow> jsnum \<Rightarrow> bool" where
  "jsLess NaN b = False"
| "jsLess a NaN = False"
| "jsLess a NInf = False"
| "jsLess PInf b = False"
| "jsLess NInf b = True"
| "jsLess a PInf = True"
| "jsLess (Fin a) (Fin b) = (a < b)"

text \<open>
  \<^verbatim>\<open>parseFloat(x.toFixed(1))\<close>. \<^verbatim>\<open>toFixed(1)\<close> prints the integer \<open>n\<close> for which
  \<open>n / 10\<close> is closest to \<open>\<bar>x\<bar>\<close> (the larger one of two), with the sign of \<open>x\<close>; from
  \<open>10\<^sup>2\<^sup>1\<close> on it prints the number itself. \<^verbatim>\<open>parseFloat\<close> reads the printed decimal
  back. NaN and the infinities print as their names and are read back as themselves.
\<close>

fun parseFloat_toFixed1 :: "jsnum \<Rightarrow> jsnum" where
  "parseFloat_toFixed1 (Fin x) =
     (if 10 ^ 21 \<le> \<bar>x\<bar> then Fin x
      else Fin (sgn x * (of_int \<lfloor>10 * \<bar>x\<bar> + 1 / 2\<rfloor> / 10)))"
| "parseFloat_toFixed1 a = a"

subsection \<open>Strings read as numbers\<close>

definition digitVal :: "char \<Rightarrow> nat option" where
  "digitVal c =
     map_of [(CHR ''0'', 0), (CHR ''1'', 1), (CHR ''2'', 2), (CHR ''3'', 3), (CHR ''4'', 4),
             (CHR ''5'', 5), (CHR ''6'', 6), (CHR ''7'', 7), (CHR ''8'', 8), (CHR ''9'', 9)] c"

definition hexDigitVal :: "char \<Rightarrow> nat option" where
  "hexDigitVal c =
     (case map_of [(CHR ''a'', 10), (CHR ''b'', 11), (CHR ''c'', 12), (CHR ''d'', 13),
                   (CHR ''e'', 14), (CHR ''f'', 15), (CHR ''A'', 10), (CHR ''B'', 11),
                   (CHR ''C'', 12), (CHR ''D'', 13), (CHR ''E'', 14), (CHR ''F'', 15)] c of
        Some d \<Rightarrow> Some d
      | None \<Rightarrow> digitVal c)"

definition isDigit :: "char \<Rightarrow> bool" where
  "isDigit c = (digitVal c \<noteq> None)"

text \<open>The value of a run of digits in a radix; a character that is no digit counts 0.\<close>

definition radixValue :: "nat \<Rightarrow> string \<Rightarrow> nat" where
  "radixValue b ds =
     foldl (\<lambda>a c. b * a + (case hexDigitVal c of Some d \<Rightarrow> d | None \<Rightarrow> 0)) 0 ds"

definition isRadixDigit :: "nat \<Rightarrow> char \<Rightarrow> bool" where
  "isRadixDigit b c = (case hexDigitVal c of Some d \<Rightarrow> d < b | None \<Rightarrow> False)"

text \<open>White space and line terminators, among the 8-bit characters.\<close>

definition strWhiteSpaceChar :: "char \<Rightarrow> bool" where
  "strWhiteSpaceChar c =
     (c = CHR '' '' \<or> c = CHR 0x09 \<or> c = CHR 0x0A \<or> c = CHR 0x0B \<or> c = CHR 0x0C
      \<or> c = CHR 0x0D)"

definition trimString :: "string \<Rightarrow> string" where
  "trimString s = rev (dropWhile strWhiteSpaceChar (rev (dropWhile strWhiteSpaceChar s)))"

definition pow10 :: "int \<Rightarrow> rat" where
  "pow10 e = (if 0 \<le> e then 10 ^ nat e else 1 / 10 ^ nat (- e))"

text \<open>An optional sign; the result is the sign and the rest of the string.\<close>

definition signPart :: "string \<Rightarrow> int \<times> string" where
  "signPart s =
     (case s of
        [] \<Rightarrow> (1, s)
      | c # r \<Rightarrow> if c = CHR ''-'' then (- 1, r) else if c = CHR ''+'' then (1, r) else (1, s))"

text \<open>
  An exponent part \<^verbatim>\<open>e\<close>, sign, digits at the head of the string: its value and the
  rest; without digits there is no exponent part and nothing is consumed.
\<close>

definition exponentPart :: "string \<Rightarrow> int \<times> string" where
  "exponentPart s =
     (case s of
        [] \<Rightarrow> (0, s)
      | c # r \<Rightarrow>
          if c = CHR ''e'' \<or> c = CHR ''E'' then
            (let (sg, r1) = signPart r; ds = takeWhile isDigit r1
             in if ds = [] then (0, s)
                else (sg * int (radixValue 10 ds), dropWhile isDigit r1))
          else (0, s))"

text \<open>
  The longest prefix of the string that is a \<^verbatim>\<open>StrDecimalLiteral\<close> of the language
  standard, with its value, and the rest of the string; \<open>None\<close> when no prefix is one.
\<close>

definition strDecimalLiteral :: "string \<Rightarrow> (jsnum \<times> string) option" where
  "strDecimalLiteral s =
     (let (sg, r) = signPart s in
      if take 8 r = ''Infinity'' then Some (if sg < 0 then NInf else PInf, drop 8 r)
      else
        let d1 = takeWhile isDigit r;
            r1 = dropWhile isDigit r;
            (d2, r2) =
              (case r1 of
                 [] \<Rightarrow> ([], r1)
               | c # t \<Rightarrow>
                   if c = CHR ''.'' \<and> (d1 \<noteq> [] \<or> takeWhile isDigit t \<noteq> [])
                   then (takeWhile isDigit t, dropWhile isDigit t)
                   else ([], r1))
        in if d1 = [] \<and> d2 = [] then None
           else
             let (e, r3) = exponentPart r2;
                 m = of_nat (radixValue 10 d1) + of_nat (radixValue 10 d2) / 10 ^ length d2
             in Some (Fin (of_int sg * m * pow10 e), r3))"

definition parseFloat :: "string \<Rightarrow> jsnum" where
  "parseFloat s =
     (case strDecimalLiteral (dropWhile strWhiteSpaceChar s) of
        None \<Rightarrow> NaN
      | Some (v, r) \<Rightarrow> v)"

text \<open>
  \<^verbatim>\<open>Number(s)\<close> for a string: the whole trimmed string must be a numeric literal
  (decimal, or hexadecimal, octal or binary with its prefix); the empty string is 0.
\<close>

definition nonDecimalLiteral :: "string \<Rightarrow> jsnum option" where
  "nonDecimalLiteral t =
     (case t of
        z # x # ds \<Rightarrow>
          if z = CHR ''0'' \<and> ds \<noteq> [] then
            (if (x = CHR ''x'' \<or> x = CHR ''X'') \<and> list_all (isRadixDigit 16) ds
               then Some (Fin (of_nat (radixValue 16 ds)))
             else if (x = CHR ''o'' \<or> x = CHR ''O'') \<and> list_all (isRadixDigit 8) ds
               then Some (Fin (of_nat (radixValue 8 ds)))
             else if (x = CHR ''b'' \<or> x = CHR ''B'') \<and> list_all (isRadixDigit 2) ds
               then Some (Fin (of_nat (radixValue 2 ds)))
             else None)
          else None
      | _ \<Rightarrow> None)"

definition stringToNumber :: "string \<Rightarrow> jsnum" where
  "stringToNumber s =
     (let t = trimString s in
      if t = [] then Fin 0
      else case nonDecimalLiteral t of
             Some v \<Rightarrow> v
           | None \<Rightarrow>
               (case strDecimalLiteral t of
                  Some (v, []) \<Rightarrow> v
                | _ \<Rightarrow> NaN))"

subsection \<open>Conversions and the operator \<^verbatim>\<open>+\<close>\<close>

fun toNumber :: "jsval \<Rightarrow> jsnum" where
  "toNumber JUndefined = NaN"
| "toNumber JNull = Fin 0"
| "toNumber (JBool b) = (if b then Fin 1 else Fin 0)"
| "toNumber (JNumber n) = n"
| "toNumber (JString s) = stringToNumber s"

text \<open>The test \<^verbatim>\<open>!v\<close> is true on the values that are not truthy.\<close>

fun truthy :: "jsval \<Rightarrow> bool" where
  "truthy JUndefined = False"
| "truthy JNull = False"
| "truthy (JBool b) = b"
| "truthy (JNumber n) = (n \<noteq> NaN \<and> n \<noteq> Fin 0)"
| "truthy (JString s) = (s \<noteq> [])"

definition digitChar :: "nat \<Rightarrow> char" where
  "digitChar d = ''0123456789'' ! (d mod 10)"

fun showNat :: "nat \<Rightarrow> string" where
  "showNat n = (if n < 10 then [digitChar n] else showNat (n div 10) @ [digitChar (n mod 10)])"

text \<open>
  A number printed as a string, as the operator \<^verbatim>\<open>+\<close> does next to a string. The
  model prints NaN, the infinities and the integers below \<open>10\<^sup>2\<^sup>1\<close>, whose digits are
  their decimal digits; the shortest digits that identify any other double are not
  determined by a rational, and the result is \<open>None\<close>: outside the model.
\<close>

fun numberToString :: "jsnum \<Rightarrow> string option" where
  "numberToString NaN = Some ''NaN''"
| "numberToString PInf = Some ''Infinity''"
| "numberToString NInf = Some ''-Infinity''"
| "numberToString (Fin x) =
     (if x = of_int \<lfloor>x\<rfloor> \<and> \<bar>x\<bar> < 10 ^ 21
      then Some ((if x < 0 then ''-'' else []) @ showNat (nat \<bar>\<lfloor>x\<rfloor>\<bar>))
      else None)"

fun toString :: "jsval \<Rightarrow> string option" where
  "toString JUndefined = Some ''undefined''"
| "toString JNull = Some ''null''"
| "toString (JBool b) = Some (if b then ''true'' else ''false'')"
| "toString (JNumber n) = numberToString n"
| "toString (JString s) = Some s"

text \<open>
  \<^verbatim>\<open>a + b\<close>: concatenation of the two printed operands when one of them is a string,
  the sum of the two operands as numbers otherwise.
\<close>

fun jsPlus :: "jsval \<Rightarrow> jsval \<Rightarrow> jsval option" where
  "jsPlus (JString s) b = (case toString b of None \<Rightarrow> None | Some t \<Rightarrow> Some (JString (s @ t)))"
| "jsPlus a (JString t) = (case toString a of None \<Rightarrow> None | Some s \<Rightarrow> Some (JString (s @ t)))"
| "jsPlus a b = Some (JNumber (jsAdd (toNumber a) (toNumber b)))"

section \<open>The two rating helpers\<close>

text \<open>
  \<^verbatim>\<open>updateItemRating\<close> and \<^verbatim>\<open>updateUserRating\<close> of \<^verbatim>\<open>app/api/reviews/route.ts\<close>,
  \<^verbatim>\<open>app/api/items/[id]/route.ts\<close> and \<^verbatim>\<open>app/api/users/[username]/route.ts\<close> compute
  the average with the loop below over the \<^verbatim>\<open>rating\<close> fields of the embedded list.
  \<open>safeRating\<close> is the local \<^verbatim>\<open>rating\<close> after the two \<^verbatim>\<open>typeof\<close> tests (\<open>None\<close>:
  left undefined). The embedded lists of the model hold objects, so the loop's
  \<^verbatim>\<open>if (!review) continue\<close> never fires.
\<close>

fun safeRating :: "jsval \<Rightarrow> jsnum option" where
  "safeRating (JNumber n) = Some n"
| "safeRating (JString s) = Some (parseFloat s)"
| "safeRating v = None"

fun safeLoop :: "jsval list \<Rightarrow> jsnum \<Rightarrow> nat \<Rightarrow> jsnum \<times> nat" where
  "safeLoop [] validRatingsSum validRatingsCount = (validRatingsSum, validRatingsCount)"
| "safeLoop (r # rs) validRatingsSum validRatingsCount =
     (case safeRating r of
        None \<Rightarrow> safeLoop rs validRatingsSum validRatingsCount
      | Some rating \<Rightarrow>
          if rating \<noteq> NaN
          then safeLoop rs (jsAdd validRatingsSum rating) (validRatingsCount + 1)
          else safeLoop rs validRatingsSum validRatingsCount)"

definition safeAverage :: "jsval list \<Rightarrow> jsnum" where
  "safeAverage ratings =
     (if 0 < length ratings then
        (let (validRatingsSum, validRatingsCount) = safeLoop ratings (Fin 0) 0
         in if 0 < validRatingsCount
            then parseFloat_toFixed1 (jsDivNat validRatingsSum validRatingsCount)
            else Fin 0)
      else Fin 0)"

text \<open>
  The helpers of \<^verbatim>\<open>app/api/reviews/[id]/route.ts\<close> use
  \<^verbatim>\<open>reviews.reduce((total, review) => total + review.rating, 0)\<close> and divide the
  result, as a number, by the length of the list.
\<close>

fun reduceSum :: "jsval \<Rightarrow> jsval list \<Rightarrow> jsval option" where
  "reduceSum tot [] = Some tot"
| "reduceSum tot (r # rs) =
     (case jsPlus tot r of None \<Rightarrow> None | Some t \<Rightarrow> reduceSum t rs)"

definition simpleAverage :: "jsval list \<Rightarrow> jsnum option" where
  "simpleAverage ratings =
     (if 0 < length ratings then
        (case reduceSum (JNumber (Fin 0)) ratings of
           None \<Rightarrow> None
         | Some s \<Rightarrow> Some (parseFloat_toFixed1 (jsDivNat (toNumber s) (length ratings))))
      else Some (Fin 0))"

text \<open>The average as the specification words it: the valid ratings, their sum, their count.\<close>

definition validRatings :: "jsval list \<Rightarrow> jsnum list" where
  "validRatings ratings =
     filter (\<lambda>n. n \<noteq> NaN) (List.map_filter safeRating ratings)"




section \<open>The document store\<close>

text \<open>
  The two collections, with the fields the review routes read or write. An embedded
  review on the item side has \<^verbatim>\<open>_id\<close>, \<^verbatim>\<open>username\<close>, \<^verbatim>\<open>rating\<close> and \<^verbatim>\<open>comment\<close>
  (\<open>ir_\<close>); on the user side \<^verbatim>\<open>_id\<close>, \<^verbatim>\<open>itemId\<close>, \<^verbatim>\<open>itemName\<close>, \<^verbatim>\<open>rating\<close> and
  \<^verbatim>\<open>comment\<close> (\<open>ur_\<close>). The \<^verbatim>\<open>createdAt\<close> stamps, and the fields of an item or a user
  that no review route touches, are left out. A collection is the list of its
  documents in the order in which \<^verbatim>\<open>findOne\<close> scans them. An item's \<^verbatim>\<open>_id\<close> is the
  lower-case hexadecimal form of its ObjectId. Comments are strings.
\<close>

record itemReview =
  ir_id :: string
  ir_username :: string
  ir_rating :: jsval
  ir_comment :: string

record userItemReview =
  ur_id :: string
  ur_itemId :: string
  ur_itemName :: string
  ur_rating :: jsval
  ur_comment :: string

record item =
  i_id :: string
  i_name :: string
  i_rating :: jsnum
  i_reviewCount :: int
  i_reviews :: "itemReview list"

record user =
  u_username :: string
  u_averageRating :: jsnum
  u_reviewCount :: int
  u_itemReviews :: "userItemReview list"

record db =
  items :: "item list"
  users :: "user list"

subsection \<open>The driver's operations\<close>

text \<open>
  \<^verbatim>\<open>findOne\<close> returns the first document that matches. \<^verbatim>\<open>updateOne\<close> changes the first
  document that matches; its \<^verbatim>\<open>modifiedCount\<close> is 1 when that document exists and the
  update changed it, and 0 otherwise. \<^verbatim>\<open>deleteOne\<close> removes the first document that
  matches; its \<^verbatim>\<open>deletedCount\<close> is 1 when there was one.
\<close>

definition findOne :: "('a \<Rightarrow> bool) \<Rightarrow> 'a list \<Rightarrow> 'a option" where
  "findOne q xs = List.find q xs"

fun updateDoc :: "('a \<Rightarrow> bool) \<Rightarrow> ('a \<Rightarrow> 'a) \<Rightarrow> 'a list \<Rightarrow> 'a list" where
  "updateDoc q f [] = []"
| "updateDoc q f (x # xs) = (if q x then f x # xs else x # updateDoc q f xs)"

definition modifiedCount :: "('a \<Rightarrow> bool) \<Rightarrow> ('a \<Rightarrow> 'a) \<Rightarrow> 'a list \<Rightarrow> nat" where
  "modifiedCount q f xs =
     (case List.find q xs of None \<Rightarrow> 0 | Some x \<Rightarrow> if f x = x then 0 else 1)"

fun deleteDoc :: "('a \<Rightarrow> bool) \<Rightarrow> 'a list \<Rightarrow> 'a list" where
  "deleteDoc q [] = []"
| "deleteDoc q (x # xs) = (if q x then xs else x # deleteDoc q xs)"

definition deletedCount :: "('a \<Rightarrow> bool) \<Rightarrow> 'a list \<Rightarrow> nat" where
  "deletedCount q xs = (case List.find q xs of None \<Rightarrow> 0 | Some x \<Rightarrow> 1)"

text \<open>
  \<^verbatim>\<open>ObjectId.isValid\<close> on a string (24 hexadecimal digits), and \<^verbatim>\<open>new ObjectId(s)\<close>,
  which reads the digits in either case.
\<close>

definition ObjectId_isValid :: "string \<Rightarrow> bool" where
  "ObjectId_isValid s = (length s = 24 \<and> list_all (isRadixDigit 16) s)"

definition lowerHex :: "char \<Rightarrow> char" where
  "lowerHex c =
     (if c = CHR ''A'' then CHR ''a'' else if c = CHR ''B'' then CHR ''b''
      else if c = CHR ''C'' then CHR ''c'' else if c = CHR ''D'' then CHR ''d''
      else if c = CHR ''E'' then CHR ''e'' else if c = CHR ''F'' then CHR ''f''
      else c)"

definition ObjectId :: "string \<Rightarrow> string" where
  "ObjectId s = map lowerHex s"

text \<open>The queries and update operators of the routes.\<close>

definition hasReviewId :: "string \<Rightarrow> item \<Rightarrow> bool" where
  "hasReviewId rid it = list_ex (\<lambda>r. ir_id r = rid) (i_reviews it)"

definition hasReviewBy :: "string \<Rightarrow> item \<Rightarrow> bool" where
  "hasReviewBy username it = list_ex (\<lambda>r. ir_username r = username) (i_reviews it)"

definition hasItemReviewId :: "string \<Rightarrow> user \<Rightarrow> bool" where
  "hasItemReviewId rid u = list_ex (\<lambda>e. ur_id e = rid) (u_itemReviews u)"

definition pullReview :: "string \<Rightarrow> item \<Rightarrow> item" where
  "pullReview rid it = it\<lparr>i_reviews := filter (\<lambda>r. ir_id r \<noteq> rid) (i_reviews it)\<rparr>"

definition pullItemReview :: "string \<Rightarrow> user \<Rightarrow> user" where
  "pullItemReview rid u = u\<lparr>u_itemReviews := filter (\<lambda>e. ur_id e \<noteq> rid) (u_itemReviews u)\<rparr>"

definition pullItemReviewsOf :: "string \<Rightarrow> user \<Rightarrow> user" where
  "pullItemReviewsOf itemId u =
     u\<lparr>u_itemReviews := filter (\<lambda>e. ur_itemId e \<noteq> itemId) (u_itemReviews u)\<rparr>"

definition incItemCount :: "int \<Rightarrow> item \<Rightarrow> item" where
  "incItemCount k it = it\<lparr>i_reviewCount := i_reviewCount it + k\<rparr>"

definition incUserCount :: "int \<Rightarrow> user \<Rightarrow> user" where
  "incUserCount k u = u\<lparr>u_reviewCount := u_reviewCount u + k\<rparr>"

definition pushReview :: "itemReview \<Rightarrow> item \<Rightarrow> item" where
  "pushReview r it = it\<lparr>i_reviews := i_reviews it @ [r]\<rparr>"

definition pushItemReview :: "userItemReview \<Rightarrow> user \<Rightarrow> user" where
  "pushItemReview e u = u\<lparr>u_itemReviews := u_itemReviews u @ [e]\<rparr>"

section \<open>app/api/reviews/route.ts\<close>

definition updateItemRating :: "db \<Rightarrow> string \<Rightarrow> db" where
  "updateItemRating d itemId =
     (case findOne (\<lambda>it. i_id it = ObjectId itemId) (items d) of
        None \<Rightarrow> d
      | Some item \<Rightarrow>
          d\<lparr>items :=
              updateDoc (\<lambda>it. i_id it = ObjectId itemId)
                (\<lambda>it. it\<lparr>i_rating := safeAverage (map ir_rating (i_reviews item))\<rparr>)
                (items d)\<rparr>)"

definition updateUserRating :: "db \<Rightarrow> string \<Rightarrow> db" where
  "updateUserRating d username =
     (case findOne (\<lambda>u. u_username u = username) (users d) of
        None \<Rightarrow> d
      | Some user \<Rightarrow>
          d\<lparr>users :=
              updateDoc (\<lambda>u. u_username u = username)
                (\<lambda>u. u\<lparr>u_averageRating := safeAverage (map ur_rating (u_itemReviews user))\<rparr>)
                (users d)\<rparr>)"

text \<open>
  The request body of \<^verbatim>\<open>POST /api/reviews\<close>. The test \<^verbatim>\<open>!reviewData[field]\<close> takes a
  missing \<^verbatim>\<open>itemId\<close> or \<^verbatim>\<open>username\<close> and an empty one the same way, so a missing one
  is the empty string here. The session is the name of the authenticated user, if any.
  The identifier that \<^verbatim>\<open>new ObjectId().toString()\<close> mints is an argument.
\<close>

record reviewData =
  rd_itemId :: string
  rd_username :: string
  rd_rating :: jsval
  rd_comment :: "string option"

record reviewJson =
  rj_id :: string
  rj_itemId :: string
  rj_itemName :: string
  rj_username :: string
  rj_rating :: jsval
  rj_comment :: string

datatype payload = NoReview | Review reviewJson | ItemOnly string "string option"

datatype response = Response (status: nat) (msg: string) (payload: payload)

fun joinComma :: "string list \<Rightarrow> string" where
  "joinComma [] = []"
| "joinComma [x] = x"
| "joinComma (x # y # ys) = x @ '', '' @ joinComma (y # ys)"

definition missingFields :: "reviewData \<Rightarrow> string list" where
  "missingFields reviewData =
     (if rd_itemId reviewData = [] then [''itemId''] else [])
     @ (if rd_username reviewData = [] then [''username''] else [])
     @ (if truthy (rd_rating reviewData) then [] else [''rating''])"

definition commentOrEmpty :: "string option \<Rightarrow> string" where
  "commentOrEmpty c = (case c of None \<Rightarrow> [] | Some s \<Rightarrow> s)"

text \<open>The two embedded copies that \<^verbatim>\<open>POST\<close> builds, and the review of its response.\<close>

definition itemReviewOf :: "reviewData \<Rightarrow> string \<Rightarrow> itemReview" where
  "itemReviewOf reviewData reviewId =
     \<lparr>ir_id = reviewId, ir_username = rd_username reviewData,
      ir_rating = rd_rating reviewData,
      ir_comment = commentOrEmpty (rd_comment reviewData)\<rparr>"

definition userItemReviewOf :: "reviewData \<Rightarrow> string \<Rightarrow> item \<Rightarrow> userItemReview" where
  "userItemReviewOf reviewData reviewId item =
     \<lparr>ur_id = reviewId, ur_itemId = rd_itemId reviewData,
      ur_itemName = i_name item, ur_rating = rd_rating reviewData,
      ur_comment = commentOrEmpty (rd_comment reviewData)\<rparr>"

definition reviewJsonOf :: "reviewData \<Rightarrow> string \<Rightarrow> item \<Rightarrow> reviewJson" where
  "reviewJsonOf reviewData reviewId item =
     \<lparr>rj_id = reviewId, rj_itemId = rd_itemId reviewData,
      rj_itemName = i_name item, rj_username = rd_username reviewData,
      rj_rating = rd_rating reviewData,
      rj_comment = commentOrEmpty (rd_comment reviewData)\<rparr>"

definition reviews_POST :: "string option \<Rightarrow> reviewData \<Rightarrow> string \<Rightarrow> db \<Rightarrow> response \<times> db" where
  "reviews_POST session reviewData reviewId d =
     (case session of
        None \<Rightarrow> (Response 401 ''Authentication required'' NoReview, d)
      | Some name \<Rightarrow>
        if missingFields reviewData \<noteq> [] then
          (Response 400 (''Missing required fields: '' @ joinComma (missingFields reviewData))
             NoReview, d)
        else if rd_username reviewData \<noteq> name then
          (Response 403 ''Cannot create reviews for other users'' NoReview, d)
        else if jsLess (toNumber (rd_rating reviewData)) (Fin 1)
                \<or> jsLess (Fin 10) (toNumber (rd_rating reviewData)) then
          (Response 400 ''Rating must be between 1 and 10'' NoReview, d)
        else if \<not> ObjectId_isValid (rd_itemId reviewData) then
          (Response 400 ''Invalid item ID format'' NoReview, d)
        else
          (case findOne (\<lambda>it. i_id it = ObjectId (rd_itemId reviewData)) (items d) of
             None \<Rightarrow> (Response 404 ''Item not found'' NoReview, d)
           | Some item \<Rightarrow>
             (case findOne (\<lambda>u. u_username u = rd_username reviewData) (users d) of
                None \<Rightarrow> (Response 404 ''User not found'' NoReview, d)
              | Some user \<Rightarrow>
                let itemQ = (\<lambda>it. i_id it = ObjectId (rd_itemId reviewData));
                    userQ = (\<lambda>u. u_username u = rd_username reviewData);
                    existingItemReview =
                      findOne (\<lambda>it. itemQ it \<and> hasReviewBy (rd_username reviewData) it) (items d);
                    itemReview = itemReviewOf reviewData reviewId;
                    userItemReview = userItemReviewOf reviewData reviewId item;
                    d1 =
                      (case existingItemReview of
                         Some existing \<Rightarrow>
                           (case List.find (\<lambda>r. ir_username r = rd_username reviewData)
                                   (i_reviews existing) of
                              Some existingReview \<Rightarrow>
                                d\<lparr>items := updateDoc itemQ (pullReview (ir_id existingReview)) (items d),
                                  users := updateDoc userQ (pullItemReview (ir_id existingReview)) (users d)\<rparr>
                            | None \<Rightarrow> d)
                       | None \<Rightarrow>
                           d\<lparr>items := updateDoc itemQ (incItemCount 1) (items d),
                             users := updateDoc userQ (incUserCount 1) (users d)\<rparr>);
                    d2 = d1\<lparr>items := updateDoc itemQ (pushReview itemReview) (items d1)\<rparr>;
                    d3 = d2\<lparr>users := updateDoc userQ (pushItemReview userItemReview) (users d2)\<rparr>;
                    d4 = updateItemRating d3 (rd_itemId reviewData);
                    d5 = updateUserRating d4 (rd_username reviewData)
                in (Response 201
                      (if existingItemReview \<noteq> None then ''Review updated successfully''
                       else ''Review created successfully'')
                      (Review (reviewJsonOf reviewData reviewId item)),
                    d5))))"

section \<open>app/api/reviews/[id]/route.ts\<close>

text \<open>
  The helpers of this file take the item's own \<^verbatim>\<open>_id\<close> and average with \<^verbatim>\<open>reduce\<close>.
  Where the sum leaves the model (\<open>simpleAverage\<close> is \<open>None\<close>), so does the helper.
\<close>

definition reviewsId_updateItemRating :: "db \<Rightarrow> string \<Rightarrow> db option" where
  "reviewsId_updateItemRating d itemId =
     (case findOne (\<lambda>it. i_id it = itemId) (items d) of
        None \<Rightarrow> Some d
      | Some item \<Rightarrow>
          (case simpleAverage (map ir_rating (i_reviews item)) of
             None \<Rightarrow> None
           | Some averageRating \<Rightarrow>
               Some (d\<lparr>items :=
                        updateDoc (\<lambda>it. i_id it = itemId)
                          (\<lambda>it. it\<lparr>i_rating := averageRating\<rparr>) (items d)\<rparr>)))"

definition reviewsId_updateUserRating :: "db \<Rightarrow> string \<Rightarrow> db option" where
  "reviewsId_updateUserRating d username =
     (case findOne (\<lambda>u. u_username u = username) (users d) of
        None \<Rightarrow> Some d
      | Some user \<Rightarrow>
          (case simpleAverage (map ur_rating (u_itemReviews user)) of
             None \<Rightarrow> None
           | Some averageRating \<Rightarrow>
               Some (d\<lparr>users :=
                        updateDoc (\<lambda>u. u_username u = username)
                          (\<lambda>u. u\<lparr>u_averageRating := averageRating\<rparr>) (users d)\<rparr>)))"

definition reviewsId_GET :: "string \<Rightarrow> db \<Rightarrow> response" where
  "reviewsId_GET rid d =
     (let fromUsers =
            (case findOne (hasItemReviewId rid) (users d) of
               None \<Rightarrow> Response 404 ''Review not found'' NoReview
             | Some userWithReview \<Rightarrow>
                 (case List.find (\<lambda>e. ur_id e = rid) (u_itemReviews userWithReview) of
                    None \<Rightarrow> Response 404 ''Review not found'' NoReview
                  | Some review \<Rightarrow>
                      Response 200 []
                        (Review \<lparr>rj_id = ur_id review, rj_itemId = ur_itemId review,
                                 rj_itemName = ur_itemName review,
                                 rj_username = u_username userWithReview,
                                 rj_rating = ur_rating review, rj_comment = ur_comment review\<rparr>)))
      in case findOne (hasReviewId rid) (items d) of
           None \<Rightarrow> fromUsers
         | Some itemWithReview \<Rightarrow>
             (case List.find (\<lambda>r. ir_id r = rid) (i_reviews itemWithReview) of
                None \<Rightarrow> fromUsers
              | Some review \<Rightarrow>
                  Response 200 []
                    (Review \<lparr>rj_id = ir_id review, rj_itemId = i_id itemWithReview,
                             rj_itemName = i_name itemWithReview,
                             rj_username = ir_username review,
                             rj_rating = ir_rating review, rj_comment = ir_comment review\<rparr>)))"

text \<open>The two mirrored writes of \<^verbatim>\<open>DELETE\<close>, each with its \<^verbatim>\<open>modifiedCount\<close>.\<close>

definition deleteItemWrite :: "string \<Rightarrow> string \<Rightarrow> item list \<Rightarrow> nat \<times> item list" where
  "deleteItemWrite itemId rid its =
     (modifiedCount (\<lambda>it. i_id it = itemId) (\<lambda>it. incItemCount (- 1) (pullReview rid it)) its,
      updateDoc (\<lambda>it. i_id it = itemId) (\<lambda>it. incItemCount (- 1) (pullReview rid it)) its)"

definition deleteUserWrite :: "string \<Rightarrow> string \<Rightarrow> user list \<Rightarrow> nat \<times> user list" where
  "deleteUserWrite username rid us =
     (modifiedCount (\<lambda>u. u_username u = username)
        (\<lambda>u. incUserCount (- 1) (pullItemReview rid u)) us,
      updateDoc (\<lambda>u. u_username u = username)
        (\<lambda>u. incUserCount (- 1) (pullItemReview rid u)) us)"

definition reviewsId_DELETE :: "string \<Rightarrow> db \<Rightarrow> (response \<times> db) option" where
  "reviewsId_DELETE rid d =
     (case findOne (hasReviewId rid) (items d) of
        None \<Rightarrow> Some (Response 404 ''Review not found in any item'' NoReview, d)
      | Some itemWithReview \<Rightarrow>
          (case List.find (\<lambda>r. ir_id r = rid) (i_reviews itemWithReview) of
             None \<Rightarrow> Some (Response 404 ''Review not found in the item'' NoReview, d)
           | Some review \<Rightarrow>
               let username = ir_username review;
                   itemId = i_id itemWithReview;
                   itemUpdateResult = deleteItemWrite itemId rid (items d);
                   userUpdateResult = deleteUserWrite username rid (users d);
                   d1 = d\<lparr>items := snd itemUpdateResult, users := snd userUpdateResult\<rparr>
               in if fst itemUpdateResult = 0 \<and> fst userUpdateResult = 0 then
                    Some (Response 400 ''Failed to delete review from either collection''
                            NoReview, d1)
                  else
                    (case reviewsId_updateItemRating d1 itemId of
                       None \<Rightarrow> None
                     | Some d2 \<Rightarrow>
                         (case reviewsId_updateUserRating d2 username of
                            None \<Rightarrow> None
                          | Some d3 \<Rightarrow>
                              Some (Response 200 ''Review deleted successfully'' NoReview, d3)))))"

text \<open>
  The body of \<^verbatim>\<open>PUT\<close>: a field that is absent is \<^verbatim>\<open>undefined\<close> (\<open>JUndefined\<close>, \<open>None\<close>).
  \<open>setItemFields\<close> and \<open>setUserFields\<close> are the \<^verbatim>\<open>$set\<close> on the positional element.
\<close>

record updateData =
  ud_rating :: jsval
  ud_comment :: "string option"

definition setItemFields :: "updateData \<Rightarrow> itemReview \<Rightarrow> itemReview" where
  "setItemFields updateData r =
     r\<lparr>ir_rating := (if ud_rating updateData \<noteq> JUndefined then ud_rating updateData
                      else ir_rating r),
       ir_comment := (case ud_comment updateData of None \<Rightarrow> ir_comment r | Some c \<Rightarrow> c)\<rparr>"

definition setUserFields :: "updateData \<Rightarrow> userItemReview \<Rightarrow> userItemReview" where
  "setUserFields updateData e =
     e\<lparr>ur_rating := (if ud_rating updateData \<noteq> JUndefined then ud_rating updateData
                      else ur_rating e),
       ur_comment := (case ud_comment updateData of None \<Rightarrow> ur_comment e | Some c \<Rightarrow> c)\<rparr>"

definition setReviewFields :: "string \<Rightarrow> updateData \<Rightarrow> item \<Rightarrow> item" where
  "setReviewFields rid updateData it =
     it\<lparr>i_reviews :=
          updateDoc (\<lambda>r. ir_id r = rid) (setItemFields updateData) (i_reviews it)\<rparr>"

definition setItemReviewFields :: "string \<Rightarrow> updateData \<Rightarrow> user \<Rightarrow> user" where
  "setItemReviewFields rid updateData u =
     u\<lparr>u_itemReviews :=
          updateDoc (\<lambda>e. ur_id e = rid) (setUserFields updateData) (u_itemReviews u)\<rparr>"

definition putItemWrite :: "string \<Rightarrow> string \<Rightarrow> updateData \<Rightarrow> item list \<Rightarrow> nat \<times> item list" where
  "putItemWrite itemId rid updateData its =
     (modifiedCount (\<lambda>it. i_id it = itemId \<and> hasReviewId rid it)
        (setReviewFields rid updateData) its,
      updateDoc (\<lambda>it. i_id it = itemId \<and> hasReviewId rid it)
        (setReviewFields rid updateData) its)"

definition putUserWrite :: "string \<Rightarrow> string \<Rightarrow> updateData \<Rightarrow> user list \<Rightarrow> nat \<times> user list" where
  "putUserWrite username rid updateData us =
     (modifiedCount (\<lambda>u. u_username u = username \<and> hasItemReviewId rid u)
        (setItemReviewFields rid updateData) us,
      updateDoc (\<lambda>u. u_username u = username \<and> hasItemReviewId rid u)
        (setItemReviewFields rid updateData) us)"

text \<open>The response of \<^verbatim>\<open>PUT\<close>, read back from the item after the writes.\<close>

definition putResponse :: "string \<Rightarrow> string \<Rightarrow> db \<Rightarrow> response" where
  "putResponse itemId rid d =
     (case findOne (\<lambda>it. i_id it = itemId) (items d) of
        None \<Rightarrow> Response 200 ''Review updated successfully'' (ItemOnly itemId None)
      | Some updatedItem \<Rightarrow>
          (case List.find (\<lambda>r. ir_id r = rid) (i_reviews updatedItem) of
             None \<Rightarrow>
               Response 200 ''Review updated successfully''
                 (ItemOnly itemId (Some (i_name updatedItem)))
           | Some updatedReview \<Rightarrow>
               Response 200 ''Review updated successfully''
                 (Review \<lparr>rj_id = ir_id updatedReview, rj_itemId = itemId,
                          rj_itemName = i_name updatedItem,
                          rj_username = ir_username updatedReview,
                          rj_rating = ir_rating updatedReview,
                          rj_comment = ir_comment updatedReview\<rparr>)))"

definition reviewsId_PUT :: "string \<Rightarrow> updateData \<Rightarrow> db \<Rightarrow> (response \<times> db) option" where
  "reviewsId_PUT rid updateData d =
     (if ud_rating updateData \<noteq> JUndefined
         \<and> (jsLess (toNumber (ud_rating updateData)) (Fin 1)
              \<or> jsLess (Fin 10) (toNumber (ud_rating updateData))) then
        Some (Response 400 ''Rating must be between 1 and 10'' NoReview, d)
      else if ud_rating updateData = JUndefined \<and> ud_comment updateData = None then
        Some (Response 400 ''No valid fields to update'' NoReview, d)
      else
        (case findOne (hasReviewId rid) (items d) of
           None \<Rightarrow> Some (Response 404 ''Review not found in any item'' NoReview, d)
         | Some itemWithReview \<Rightarrow>
             (case List.find (\<lambda>r. ir_id r = rid) (i_reviews itemWithReview) of
                None \<Rightarrow> Some (Response 404 ''Review not found in the item'' NoReview, d)
              | Some review \<Rightarrow>
                  let username = ir_username review;
                      itemId = i_id itemWithReview;
                      itemUpdateResult = putItemWrite itemId rid updateData (items d);
                      userUpdateResult = putUserWrite username rid updateData (users d);
                      d1 = d\<lparr>items := snd itemUpdateResult, users := snd userUpdateResult\<rparr>
                  in if fst itemUpdateResult = 0 \<and> fst userUpdateResult = 0 then
                       Some (Response 400 ''Failed to update review in either collection''
                               NoReview, d1)
                     else if ud_rating updateData \<noteq> JUndefined then
                       (case reviewsId_updateItemRating d1 itemId of
                          None \<Rightarrow> None
                        | Some d2 \<Rightarrow>
                            (case reviewsId_updateUserRating d2 username of
                               None \<Rightarrow> None
                             | Some d3 \<Rightarrow> Some (putResponse itemId rid d3, d3)))
                     else Some (putResponse itemId rid d1, d1))))"

section \<open>app/api/items/[id]/route.ts\<close>

text \<open>
  \<^verbatim>\<open>usersToUpdate\<close> is a \<^verbatim>\<open>Set\<close>, which keeps each name once, in the order of first
  insertion. The loop over the item's reviews detaches them from their users.
\<close>

definition setAdd :: "string list \<Rightarrow> string \<Rightarrow> string list" where
  "setAdd xs x = (if List.member xs x then xs else xs @ [x])"

fun detachLoop :: "string \<Rightarrow> itemReview list \<Rightarrow> string list \<Rightarrow> user list \<Rightarrow> string list \<times> user list" where
  "detachLoop itemId [] usersToUpdate us = (usersToUpdate, us)"
| "detachLoop itemId (review # rest) usersToUpdate us =
     (if ir_username review \<noteq> [] then
        detachLoop itemId rest (setAdd usersToUpdate (ir_username review))
          (updateDoc (\<lambda>u. u_username u = ir_username review)
             (\<lambda>u. incUserCount (- 1) (pullItemReviewsOf itemId u)) us)
      else detachLoop itemId rest usersToUpdate us)"

definition itemsId_DELETE :: "string \<Rightarrow> db \<Rightarrow> response \<times> db" where
  "itemsId_DELETE iid d =
     (if \<not> ObjectId_isValid iid then (Response 400 ''Invalid item ID format'' NoReview, d)
      else
        (case findOne (\<lambda>it. i_id it = ObjectId iid) (items d) of
           None \<Rightarrow> (Response 404 ''Item not found'' NoReview, d)
         | Some existingItem \<Rightarrow>
             let (usersToUpdate, us) = detachLoop iid (i_reviews existingItem) [] (users d);
                 d1 = d\<lparr>users := us, items := deleteDoc (\<lambda>it. i_id it = ObjectId iid) (items d)\<rparr>
             in if deletedCount (\<lambda>it. i_id it = ObjectId iid) (items d) = 0 then
                  (Response 400 ''Failed to delete the item'' NoReview, d1)
                else
                  (Response 200 ''Item deleted successfully'' NoReview,
                   foldl updateUserRating d1 usersToUpdate)))"

section \<open>app/api/users/[username]/route.ts\<close>

text \<open>
  The body of \<^verbatim>\<open>DELETE\<close>, for the name in its parameters. \<^verbatim>\<open>itemsToUpdate\<close> is a \<^verbatim>\<open>Set\<close> of
  item identifiers as the user's entries spell them. \<^verbatim>\<open>new ObjectId(review.itemId)\<close> throws
  on a string that is no identifier; the handler then answers 500 and the writes made so
  far stay (the first component of the loop's result is \<open>None\<close>). The route's
  \<^verbatim>\<open>updateItemRating\<close> is, word for word, the one of \<^verbatim>\<open>app/api/reviews/route.ts\<close>.
\<close>

definition pullReviewsBy :: "string \<Rightarrow> item \<Rightarrow> item" where
  "pullReviewsBy username it =
     it\<lparr>i_reviews := filter (\<lambda>r. ir_username r \<noteq> username) (i_reviews it)\<rparr>"

fun userReviewsLoop ::
  "string \<Rightarrow> userItemReview list \<Rightarrow> string list \<Rightarrow> item list \<Rightarrow> string list option \<times> item list" where
  "userReviewsLoop username [] itemsToUpdate its = (Some itemsToUpdate, its)"
| "userReviewsLoop username (review # rest) itemsToUpdate its =
     (if \<not> ObjectId_isValid (ur_itemId review) then (None, its)
      else userReviewsLoop username rest
             (if ur_itemId review \<noteq> [] then setAdd itemsToUpdate (ur_itemId review)
              else itemsToUpdate)
             (updateDoc (\<lambda>it. i_id it = ObjectId (ur_itemId review))
                (\<lambda>it. incItemCount (- 1) (pullReviewsBy username it)) its))"

definition usersUsername_DELETE :: "string \<Rightarrow> db \<Rightarrow> response \<times> db" where
  "usersUsername_DELETE username d =
     (case findOne (\<lambda>u. u_username u = username) (users d) of
        None \<Rightarrow> (Response 404 ''User not found'' NoReview, d)
      | Some user \<Rightarrow>
          (case userReviewsLoop username (u_itemReviews user) [] (items d) of
             (None, its) \<Rightarrow>
               (Response 500 ''Internal Server Error'' NoReview, d\<lparr>items := its\<rparr>)
           | (Some itemsToUpdate, its) \<Rightarrow>
               let d1 = d\<lparr>items := its,
                         users := deleteDoc (\<lambda>u. u_username u = username) (users d)\<rparr>
               in if deletedCount (\<lambda>u. u_username u = username) (users d) = 0 then
                    (Response 500 ''Failed to delete user'' NoReview, d1)
                  else
                    (Response 200 ''User deleted successfully'' NoReview,
                     foldl updateItemRating d1 itemsToUpdate)))"

section \<open>Notions used by the properties\<close>

text \<open>A rating that is a number, and not NaN.\<close>

fun numericRating :: "jsval \<Rightarrow> bool" where
  "numericRating (JNumber n) = (n \<noteq> NaN)"
| "numericRating v = False"


definition textRatings :: "jsval list" where
  "textRatings = [JNumber (Fin 5), JString ''7'']"

text \<open>
  The review that a submission replaces: the first review by the submitter in the item
  that \<^verbatim>\<open>POST\<close>'s query \<^verbatim>\<open>{_id, "reviews.username"}\<close> finds, if any.
\<close>

definition priorReview :: "reviewData \<Rightarrow> db \<Rightarrow> itemReview option" where
  "priorReview reviewData d =
     (case findOne (\<lambda>it. i_id it = ObjectId (rd_itemId reviewData)
                          \<and> hasReviewBy (rd_username reviewData) it) (items d) of
        None \<Rightarrow> None
      | Some existing \<Rightarrow>
          List.find (\<lambda>r. ir_username r = rd_username reviewData) (i_reviews existing))"

text \<open>The item and the user as a submission that passes the checks leaves them.\<close>

definition submittedItem :: "reviewData \<Rightarrow> string \<Rightarrow> db \<Rightarrow> item \<Rightarrow> item" where
  "submittedItem reviewData reviewId d it =
     (let pushed =
            pushReview (itemReviewOf reviewData reviewId)
              (case priorReview reviewData d of
                 None \<Rightarrow> incItemCount 1 it
               | Some r \<Rightarrow> pullReview (ir_id r) it)
      in pushed\<lparr>i_rating := safeAverage (map ir_rating (i_reviews pushed))\<rparr>)"

definition submittedUser :: "reviewData \<Rightarrow> string \<Rightarrow> db \<Rightarrow> item \<Rightarrow> user \<Rightarrow> user" where
  "submittedUser reviewData reviewId d it u =
     (let pushed =
            pushItemReview (userItemReviewOf reviewData reviewId it)
              (case priorReview reviewData d of
                 None \<Rightarrow> incUserCount 1 u
               | Some r \<Rightarrow> pullItemReview (ir_id r) u)
      in pushed\<lparr>u_averageRating := safeAverage (map ur_rating (u_itemReviews pushed))\<rparr>)"

text \<open>The checks of \<^verbatim>\<open>POST\<close> before it reads the store.\<close>

definition passesChecks :: "string option \<Rightarrow> reviewData \<Rightarrow> bool" where
  "passesChecks session reviewData =
     (session = Some (rd_username reviewData)
      \<and> missingFields reviewData = []
      \<and> \<not> jsLess (toNumber (rd_rating reviewData)) (Fin 1)
      \<and> \<not> jsLess (Fin 10) (toNumber (rd_rating reviewData))
      \<and> ObjectId_isValid (rd_itemId reviewData))"

text \<open>
  The store guarantees one document per \<^verbatim>\<open>_id\<close>; the users route refuses a second
  user of the same name.
\<close>

definition uniqueKeys :: "db \<Rightarrow> bool" where
  "uniqueKeys d = (distinct (map i_id (items d)) \<and> distinct (map u_username (users d)))"

text \<open>Every stored rating is a number.\<close>

definition numericDb :: "db \<Rightarrow> bool" where
  "numericDb d =
     (list_all (\<lambda>it. list_all numericRating (map ir_rating (i_reviews it))) (items d)
      \<and> list_all (\<lambda>u. list_all numericRating (map ur_rating (u_itemReviews u))) (users d))"

text \<open>The item and the user as the deletion of a review leaves them.\<close>

definition deletedFromItem :: "string \<Rightarrow> item \<Rightarrow> item" where
  "deletedFromItem rid it =
     (let w = incItemCount (- 1) (pullReview rid it)
      in w\<lparr>i_rating := safeAverage (map ir_rating (i_reviews w))\<rparr>)"

definition deletedFromUser :: "string \<Rightarrow> user \<Rightarrow> user" where
  "deletedFromUser rid u =
     (let w = incUserCount (- 1) (pullItemReview rid u)
      in w\<lparr>u_averageRating := safeAverage (map ur_rating (u_itemReviews w))\<rparr>)"

subsection \<open>The ledger's invariant\<close>



text \<open>The reviews as triples (review, reviewer, item), read from either side.\<close>

definition itemSide :: "(string \<times> (string \<times> string) list) list \<Rightarrow> (string \<times> string \<times> string) set" where
  "itemSide isk = {(rid, n, X). \<exists>rs. (X, rs) \<in> set isk \<and> (rid, n) \<in> set rs}"

definition userSide :: "(string \<times> (string \<times> string) list) list \<Rightarrow> (string \<times> string \<times> string) set" where
  "userSide usk = {(rid, n, X). \<exists>es. (n, es) \<in> set usk \<and> (rid, X) \<in> set es}"



text \<open>
  A store in which nobody has reviewed anything yet, an identifier that no embedded
  review carries, and the stores that submissions, updates and deletions of reviews
  lead to from there.
\<close>

definition freshStore :: "db \<Rightarrow> bool" where
  "freshStore d =
     (uniqueKeys d \<and> list_all (\<lambda>it. i_reviews it = []) (items d)
      \<and> list_all (\<lambda>u. u_itemReviews u = []) (users d))"

definition freshReviewId :: "string \<Rightarrow> db \<Rightarrow> bool" where
  "freshReviewId rid d =
     (\<not> list_ex (hasReviewId rid) (items d) \<and> \<not> list_ex (hasItemReviewId rid) (users d))"

inductive reachable :: "db \<Rightarrow> bool" where
  fresh: "freshStore d \<Longrightarrow> reachable d"
| submit: "reachable d \<Longrightarrow> freshReviewId rid d
           \<Longrightarrow> reachable (snd (reviews_POST session reviewData rid d))"
| update: "reachable d \<Longrightarrow> reviewsId_PUT rid updateData d = Some (resp, d')
           \<Longrightarrow> reachable d'"
| delete: "reachable d \<Longrightarrow> reviewsId_DELETE rid d = Some (resp, d') \<Longrightarrow> reachable d'"
| deleteItem: "reachable d \<Longrightarrow> reachable (snd (itemsId_DELETE iid d))"
| deleteUser: "reachable d \<Longrightarrow> reachable (snd (usersUsername_DELETE username d))"




subsection \<open>A small store\<close>

text \<open>
  The scenario of the specification: an item without reviews, two users, and the
  submission of the rating 8 with the comment \<^verbatim>\<open>great\<close>.
\<close>

definition exItemId :: string where
  "exItemId = ''65f1a2b3c4d5e6f708192a3b''"

definition exDesk :: item where
  "exDesk = \<lparr>i_id = exItemId, i_name = ''Walnut desk'', i_rating = Fin 0,
             i_reviewCount = 0, i_reviews = []\<rparr>"

definition exAlice :: user where
  "exAlice = \<lparr>u_username = ''alice'', u_averageRating = Fin 0, u_reviewCount = 0,
              u_itemReviews = []\<rparr>"

definition exBob :: user where
  "exBob = \<lparr>u_username = ''bob'', u_averageRating = Fin 0, u_reviewCount = 0,
            u_itemReviews = []\<rparr>"

definition exStore :: db where
  "exStore = \<lparr>items = [exDesk], users = [exAlice, exBob]\<rparr>"

definition exSubmission :: reviewData where
  "exSubmission = \<lparr>rd_itemId = exItemId, rd_username = ''alice'',
                   rd_rating = JNumber (Fin 8), rd_comment = Some ''great''\<rparr>"


text \<open>
  The checks of \<^verbatim>\<open>PUT\<close> before it reads the store, and the item and the user as an
  update leaves them: the averages are recomputed when the body carries a rating.
\<close>

definition validUpdate :: "updateData \<Rightarrow> bool" where
  "validUpdate updateData =
     ((ud_rating updateData = JUndefined
       \<or> (\<not> jsLess (toNumber (ud_rating updateData)) (Fin 1)
           \<and> \<not> jsLess (Fin 10) (toNumber (ud_rating updateData))))
      \<and> (ud_rating updateData \<noteq> JUndefined \<or> ud_comment updateData \<noteq> None))"

definition updatedItem :: "string \<Rightarrow> updateData \<Rightarrow> item \<Rightarrow> item" where
  "updatedItem rid updateData it =
     (let w = setReviewFields rid updateData it
      in if ud_rating updateData \<noteq> JUndefined
         then w\<lparr>i_rating := safeAverage (map ir_rating (i_reviews w))\<rparr>
         else w)"

definition updatedUser :: "string \<Rightarrow> updateData \<Rightarrow> user \<Rightarrow> user" where
  "updatedUser rid updateData u =
     (let w = setItemReviewFields rid updateData u
      in if ud_rating updateData \<noteq> JUndefined
         then w\<lparr>u_averageRating := safeAverage (map ur_rating (u_itemReviews w))\<rparr>
         else w)"

text \<open>
  A store in which the desk carries a review by a user who is not in the users
  collection, and a change of that review's rating.
\<close>

definition exOrphan :: db where
  "exOrphan =
     \<lparr>items =
        [\<lparr>i_id = exItemId, i_name = ''Walnut desk'', i_rating = Fin 8, i_reviewCount = 1,
          i_reviews =
            [\<lparr>ir_id = ''r1'', ir_username = ''carol'', ir_rating = JNumber (Fin 8),
              ir_comment = ''great''\<rparr>]\<rparr>],
      users = [exBob]\<rparr>"

definition exRerate :: updateData where
  "exRerate = \<lparr>ud_rating = JNumber (Fin 3), ud_comment = None\<rparr>"

definition exRecomment :: updateData where
  "exRecomment = \<lparr>ud_rating = JUndefined, ud_comment = Some ''fine''\<rparr>"

text \<open>A store in which only bob's list carries the review \<^verbatim>\<open>r7\<close>.\<close>

definition exUserOnly :: db where
  "exUserOnly =
     \<lparr>items = [exDesk],
      users =
        [exAlice,
         \<lparr>u_username = ''bob'', u_averageRating = Fin 5, u_reviewCount = 1,
          u_itemReviews =
            [\<lparr>ur_id = ''r7'', ur_itemId = exItemId, ur_itemName = ''Walnut desk'',
              ur_rating = JNumber (Fin 5), ur_comment = ''fair''\<rparr>]\<rparr>]\<rparr>"






text \<open>
  A run from the small store: alice submits the rating \<^verbatim>\<open>"7"\<close>, a text, which passes the
  checks of \<^verbatim>\<open>POST\<close>; bob submits 5; bob's review is then updated to 6.
\<close>

definition exTextSubmission :: reviewData where
  "exTextSubmission = \<lparr>rd_itemId = exItemId, rd_username = ''alice'',
                       rd_rating = JString ''7'', rd_comment = None\<rparr>"

definition exBobSubmission :: reviewData where
  "exBobSubmission = \<lparr>rd_itemId = exItemId, rd_username = ''bob'',
                      rd_rating = JNumber (Fin 5), rd_comment = None\<rparr>"

definition exSix :: updateData where
  "exSix = \<lparr>ud_rating = JNumber (Fin 6), ud_comment = None\<rparr>"

definition exAfterText :: db where
  "exAfterText = snd (reviews_POST (Some ''alice'') exTextSubmission ''r1'' exStore)"

definition exMixed :: db where
  "exMixed = snd (reviews_POST (Some ''bob'') exBobSubmission ''r2'' exAfterText)"



section \<open>The driver's operations\<close>

lemma find_updateDoc_hit:
  "List.find q xs = Some x \<Longrightarrow> q (f x) \<Longrightarrow> List.find q (updateDoc q f xs) = Some (f x)"
  by (induction xs) (auto split: if_splits)

lemma updateDoc_miss: "List.find q xs = None \<Longrightarrow> updateDoc q f xs = xs"
  by (induction xs) (auto split: if_splits)

lemma updateDoc_comp:
  "List.find q xs = Some x \<Longrightarrow> q (f x) \<Longrightarrow>
     updateDoc q g (updateDoc q f xs) = updateDoc q (\<lambda>y. g (f y)) xs"
  by (induction xs) (auto split: if_splits)

lemma updateDoc_const:
  "List.find q xs = Some x \<Longrightarrow> updateDoc q f xs = updateDoc q (\<lambda>y. f x) xs"
  by (induction xs) (auto split: if_splits)


lemma find_key_distinct:
  "distinct (map key xs) \<Longrightarrow> x \<in> set xs \<Longrightarrow> List.find (\<lambda>y. key y = key x) xs = Some x"
  by (induction xs) (auto simp: image_iff)


lemma modifiedCount_0: "modifiedCount q f xs = 0 \<Longrightarrow> updateDoc q f xs = xs"
proof (induction xs)
  case Nil
  show ?case by simp
next
  case (Cons x xs)
  then show ?case by (auto simp: modifiedCount_def split: if_splits option.splits)
qed

lemma list_ex_find: "list_ex p xs \<Longrightarrow> \<exists>x. List.find p xs = Some x"
  by (induction xs) auto

lemma hasReviewBy_find:
  "hasReviewBy n e \<Longrightarrow> \<exists>r. List.find (\<lambda>r. ir_username r = n) (i_reviews e) = Some r"
  unfolding hasReviewBy_def by (rule list_ex_find)

lemma hasReviewId_find:
  "hasReviewId rid e \<Longrightarrow> \<exists>r. List.find (\<lambda>r. ir_id r = rid) (i_reviews e) = Some r"
  unfolding hasReviewId_def by (rule list_ex_find)

lemma hasItemReviewId_find:
  "hasItemReviewId rid u \<Longrightarrow> \<exists>e. List.find (\<lambda>e. ur_id e = rid) (u_itemReviews u) = Some e"
  unfolding hasItemReviewId_def by (rule list_ex_find)

section \<open>The shape of a submission\<close>

lemma POST_shape:
  assumes chk: "passesChecks session rd"
    and it: "findOne (\<lambda>it. i_id it = ObjectId (rd_itemId rd)) (items d) = Some it"
    and u: "findOne (\<lambda>u. u_username u = rd_username rd) (users d) = Some u"
  shows "reviews_POST session rd rid d =
     (Response 201
        (if priorReview rd d \<noteq> None then ''Review updated successfully''
         else ''Review created successfully'')
        (Review (reviewJsonOf rd rid it)),
      d\<lparr>items := updateDoc (\<lambda>it. i_id it = ObjectId (rd_itemId rd))
                  (\<lambda>x. submittedItem rd rid d it) (items d),
        users := updateDoc (\<lambda>u. u_username u = rd_username rd)
                  (\<lambda>x. submittedUser rd rid d it u) (users d)\<rparr>)"
proof -
  let ?iq = "\<lambda>it. i_id it = ObjectId (rd_itemId rd)"
  let ?uq = "\<lambda>u. u_username u = rd_username rd"
  have it': "List.find ?iq (items d) = Some it" using it by (simp add: findOne_def)
  have u': "List.find ?uq (users d) = Some u" using u by (simp add: findOne_def)
  have qi: "i_id it = ObjectId (rd_itemId rd)" using it' by (auto simp: find_Some_iff)
  have qu: "u_username u = rd_username rd" using u' by (auto simp: find_Some_iff)
  show ?thesis
  proof (cases "findOne (\<lambda>it. ?iq it \<and> hasReviewBy (rd_username rd) it) (items d)")
    case None
    then have pr: "priorReview rd d = None" by (simp add: priorReview_def)
    show ?thesis
      using chk it u None pr qi qu
      apply (simp add: reviews_POST_def passesChecks_def Let_def updateItemRating_def
          updateUserRating_def findOne_def)
      apply (simp add: findOne_def find_updateDoc_hit [OF it'] find_updateDoc_hit [OF u']
          updateDoc_comp [OF it'] updateDoc_comp [OF u'] pushReview_def incItemCount_def
          pushItemReview_def incUserCount_def submittedItem_def submittedUser_def Let_def)
      apply (subst updateDoc_const [OF it'])
      apply (subst updateDoc_const [OF u'])
      apply simp
      done
  next
    case (Some e)
    then have "hasReviewBy (rd_username rd) e" by (auto simp: findOne_def find_Some_iff)
    then obtain r where r: "List.find (\<lambda>r. ir_username r = rd_username rd) (i_reviews e) = Some r"
      using hasReviewBy_find by blast
    have pr: "priorReview rd d = Some r" using Some r by (simp add: priorReview_def)
    show ?thesis
      using chk it u Some pr r qi qu
      apply (simp add: reviews_POST_def passesChecks_def Let_def updateItemRating_def
          updateUserRating_def findOne_def)
      apply (simp add: findOne_def find_updateDoc_hit [OF it'] find_updateDoc_hit [OF u']
          updateDoc_comp [OF it'] updateDoc_comp [OF u'] pushReview_def pullReview_def
          pushItemReview_def pullItemReview_def submittedItem_def submittedUser_def Let_def)
      apply (subst updateDoc_const [OF it'])
      apply (subst updateDoc_const [OF u'])
      apply simp
      done
  qed
qed


section \<open>The rating aggregator\<close>

lemma rat_floor_numeral_div: "\<lfloor>numeral a / (numeral b :: rat)\<rfloor> = numeral a div numeral b"
  using floor_divide_of_int_eq [of "numeral a" "numeral b", where ?'a = rat] by simp

lemmas parse_defs = parseFloat_def strDecimalLiteral_def signPart_def isDigit_def digitVal_def
  exponentPart_def radixValue_def hexDigitVal_def pow10_def strWhiteSpaceChar_def
  stringToNumber_def trimString_def nonDecimalLiteral_def digitChar_def isRadixDigit_def

lemma safeLoop_valid:
  "safeLoop rs s c = (foldl jsAdd s (validRatings rs), c + length (validRatings rs))"
proof (induction rs arbitrary: s c)
  case Nil
  show ?case by (simp add: validRatings_def List.map_filter_simps)
next
  case (Cons r rs)
  show ?case
    by (cases "safeRating r") (simp_all add: Cons validRatings_def List.map_filter_simps)
qed

lemma safeAverage_valid:
  "safeAverage rs =
     (if validRatings rs = [] then Fin 0
      else parseFloat_toFixed1
             (jsDivNat (foldl jsAdd (Fin 0) (validRatings rs)) (length (validRatings rs))))"
proof (cases "rs = []")
  case True
  then show ?thesis by (simp add: safeAverage_def validRatings_def List.map_filter_simps)
next
  case False
  then show ?thesis by (simp add: safeAverage_def safeLoop_valid)
qed




lemma validRatings_Cons:
  "validRatings (r # rs) =
     (case safeRating r of
        None \<Rightarrow> validRatings rs
      | Some n \<Rightarrow> if n = NaN then validRatings rs else n # validRatings rs)"
  by (cases "safeRating r") (simp_all add: validRatings_def List.map_filter_simps)





section \<open>The two helpers compared\<close>

lemma reduceSum_numeric:
  "list_all numericRating rs \<Longrightarrow>
     reduceSum (JNumber a) rs = Some (JNumber (foldl jsAdd a (map toNumber rs)))"
proof (induction rs arbitrary: a)
  case Nil
  show ?case by simp
next
  case (Cons r rs)
  then obtain n where "r = JNumber n" by (cases r) simp_all
  with Cons show ?case by simp
qed

lemma validRatings_numeric:
  "list_all numericRating rs \<Longrightarrow> validRatings rs = map toNumber rs"
proof (induction rs)
  case Nil
  show ?case by (simp add: validRatings_def List.map_filter_simps)
next
  case (Cons r rs)
  then obtain n where "r = JNumber n" "n \<noteq> NaN" by (cases r) simp_all
  with Cons show ?case by (simp add: validRatings_Cons)
qed

lemma simpleAverage_numeric:
  assumes "list_all numericRating rs"
  shows "simpleAverage rs = Some (safeAverage rs)"
proof (cases "rs = []")
  case True
  then show ?thesis by (simp add: simpleAverage_def safeAverage_def)
next
  case False
  then show ?thesis
    by (simp add: simpleAverage_def safeAverage_valid reduceSum_numeric [OF assms]
        validRatings_numeric [OF assms])
qed

text \<open>
  C9. The two helpers do not compute the same average. On the reviews
  \<^verbatim>\<open>[{rating: 5}, {rating: "7"}]\<close> the helper of \<^verbatim>\<open>app/api/reviews/[id]/route.ts\<close>
  joins \<^verbatim>\<open>5\<close> and \<^verbatim>\<open>"7"\<close> into the text \<^verbatim>\<open>"57"\<close> and stores 28.5, where the helper of
  the other routes stores 6; on \<^verbatim>\<open>[{rating: 5}, {rating: null}]\<close> the first counts
  the null rating as 0 and stores 2.5, where the second skips it and stores 5.
\<close>

theorem rating_helpers_disagree:
  "simpleAverage textRatings = Some (Fin (57 / 2))
   \<and> safeAverage textRatings = Fin 6
   \<and> simpleAverage [JNumber (Fin 5), JNull] = Some (Fin (5 / 2))
   \<and> safeAverage [JNumber (Fin 5), JNull] = Fin 5"
proof -
  have "simpleAverage textRatings = Some (Fin (57 / 2))"
    by (simp add: textRatings_def simpleAverage_def parse_defs rat_floor_numeral_div)
  moreover have "safeAverage textRatings = Fin 6"
    by (simp add: textRatings_def safeAverage_def parse_defs rat_floor_numeral_div)
  moreover have "simpleAverage [JNumber (Fin 5), JNull] = Some (Fin (5 / 2))"
    by (simp add: simpleAverage_def rat_floor_numeral_div)
  moreover have "safeAverage [JNumber (Fin 5), JNull] = Fin 5"
    by (simp add: safeAverage_def rat_floor_numeral_div)
  ultimately show ?thesis by simp
qed

section \<open>The invariant on skeletons\<close>





lemma itemSide_key:
  "distinct (map fst isk) \<Longrightarrow> (X, rs) \<in> set isk \<Longrightarrow>
     {t \<in> itemSide isk. snd (snd t) = X} = {(rid, n, X) | rid n. (rid, n) \<in> set rs}"
  unfolding itemSide_def by (auto dest: eq_key_imp_eq_value)

lemma userSide_key:
  "distinct (map fst usk) \<Longrightarrow> (n, es) \<in> set usk \<Longrightarrow>
     {t \<in> userSide usk. fst (snd t) = n} = {(rid, n, X) | rid X. (rid, X) \<in> set es}"
  unfolding userSide_def by (auto dest: eq_key_imp_eq_value)








section \<open>Submission\<close>

lemma findOne_None_iff: "findOne q xs = None \<longleftrightarrow> \<not> list_ex q xs"
  by (auto simp: findOne_def find_None_iff list_ex_iff)

lemma priorReview_None_iff:
  "priorReview rd d = None \<longleftrightarrow>
     \<not> list_ex (\<lambda>x. i_id x = ObjectId (rd_itemId rd) \<and> hasReviewBy (rd_username rd) x) (items d)"
proof (cases "findOne (\<lambda>x. i_id x = ObjectId (rd_itemId rd) \<and> hasReviewBy (rd_username rd) x) (items d)")
  case None
  then show ?thesis by (simp add: priorReview_def findOne_None_iff [symmetric])
next
  case (Some e)
  then have "hasReviewBy (rd_username rd) e" by (auto simp: findOne_def find_Some_iff)
  then obtain r where "List.find (\<lambda>r. ir_username r = rd_username rd) (i_reviews e) = Some r"
    using hasReviewBy_find by blast
  with Some show ?thesis
    by (simp add: priorReview_def findOne_None_iff [symmetric])
qed

lemma integer_rating_passes:
  assumes "session = Some (rd_username rd)" "rd_username rd \<noteq> []"
    "rd_rating rd = JNumber (Fin (of_int k))" "1 \<le> k" "k \<le> 10"
    "ObjectId_isValid (rd_itemId rd)"
  shows "passesChecks session rd"
proof -
  have "rd_itemId rd \<noteq> []" using assms(6) by (auto simp: ObjectId_isValid_def)
  moreover have "(of_int k :: rat) \<noteq> 0" using assms(4) by simp
  ultimately show ?thesis
    using assms by (simp add: passesChecks_def missingFields_def)
qed

lemma exItemId_valid: "ObjectId_isValid exItemId" "ObjectId exItemId = exItemId"
  by (simp_all add: ObjectId_isValid_def exItemId_def isRadixDigit_def hexDigitVal_def
      digitVal_def ObjectId_def lowerHex_def)

text \<open>
  C4. A submission with an integer rating from 1 to 10 by the authenticated user, for
  an item and a user that exist, is answered with status 201; afterwards the item
  holds an embedded review with the minted identifier, the submitter's name, the rating
  and the comment (the empty string when the body has none), and the user holds one with
  the same identifier, rating and comment, the item's identifier and its name. When no
  item of that identifier held a review by the submitter, both \<^verbatim>\<open>reviewCount\<close> fields
  have grown by 1.
\<close>

theorem submit_embeds_both_copies:
  assumes "session = Some (rd_username rd)" and "rd_username rd \<noteq> []"
    and "rd_rating rd = JNumber (Fin (of_int k))" and "1 \<le> k" and "k \<le> 10"
    and "ObjectId_isValid (rd_itemId rd)"
    and it: "findOne (\<lambda>x. i_id x = ObjectId (rd_itemId rd)) (items d) = Some it"
    and u: "findOne (\<lambda>v. u_username v = rd_username rd) (users d) = Some u"
  shows "status (fst (reviews_POST session rd rid d)) = 201
    \<and> (\<exists>it'. findOne (\<lambda>x. i_id x = ObjectId (rd_itemId rd))
                (items (snd (reviews_POST session rd rid d))) = Some it'
          \<and> \<lparr>ir_id = rid, ir_username = rd_username rd, ir_rating = rd_rating rd,
              ir_comment = (case rd_comment rd of None \<Rightarrow> [] | Some c \<Rightarrow> c)\<rparr>
              \<in> set (i_reviews it')
          \<and> (\<not> list_ex (\<lambda>x. i_id x = ObjectId (rd_itemId rd)
                              \<and> hasReviewBy (rd_username rd) x) (items d)
               \<longrightarrow> i_reviewCount it' = i_reviewCount it + 1))
    \<and> (\<exists>u'. findOne (\<lambda>v. u_username v = rd_username rd)
                (users (snd (reviews_POST session rd rid d))) = Some u'
          \<and> \<lparr>ur_id = rid, ur_itemId = rd_itemId rd, ur_itemName = i_name it,
              ur_rating = rd_rating rd,
              ur_comment = (case rd_comment rd of None \<Rightarrow> [] | Some c \<Rightarrow> c)\<rparr>
              \<in> set (u_itemReviews u')
          \<and> (\<not> list_ex (\<lambda>x. i_id x = ObjectId (rd_itemId rd)
                              \<and> hasReviewBy (rd_username rd) x) (items d)
               \<longrightarrow> u_reviewCount u' = u_reviewCount u + 1))"
proof -
  let ?iq = "\<lambda>x. i_id x = ObjectId (rd_itemId rd)"
  let ?uq = "\<lambda>v. u_username v = rd_username rd"
  let ?I = "submittedItem rd rid d it"
  let ?U = "submittedUser rd rid d it u"
  have chk: "passesChecks session rd" using assms(1-6) by (rule integer_rating_passes)
  note sh = POST_shape [OF chk it u, of rid]
  have it': "List.find ?iq (items d) = Some it" using it by (simp add: findOne_def)
  have u': "List.find ?uq (users d) = Some u" using u by (simp add: findOne_def)
  have qi: "?iq it" using it' by (auto simp: find_Some_iff)
  have qu: "?uq u" using u' by (auto simp: find_Some_iff)
  have qI: "?iq ?I"
    using qi by (simp add: submittedItem_def Let_def pushReview_def incItemCount_def
        pullReview_def split: option.splits)
  have qU: "?uq ?U"
    using qu by (simp add: submittedUser_def Let_def pushItemReview_def incUserCount_def
        pullItemReview_def split: option.splits)
  have fi: "findOne ?iq (items (snd (reviews_POST session rd rid d))) = Some ?I"
    using find_updateDoc_hit [where f = "\<lambda>x. ?I", OF it'] qI by (simp add: sh findOne_def)
  have fu: "findOne ?uq (users (snd (reviews_POST session rd rid d))) = Some ?U"
    using find_updateDoc_hit [where f = "\<lambda>x. ?U", OF u'] qU by (simp add: sh findOne_def)
  have mi: "\<lparr>ir_id = rid, ir_username = rd_username rd, ir_rating = rd_rating rd,
             ir_comment = (case rd_comment rd of None \<Rightarrow> [] | Some c \<Rightarrow> c)\<rparr>
            \<in> set (i_reviews ?I)"
    by (simp add: submittedItem_def Let_def pushReview_def itemReviewOf_def commentOrEmpty_def)
  have mu: "\<lparr>ur_id = rid, ur_itemId = rd_itemId rd, ur_itemName = i_name it,
             ur_rating = rd_rating rd,
             ur_comment = (case rd_comment rd of None \<Rightarrow> [] | Some c \<Rightarrow> c)\<rparr>
            \<in> set (u_itemReviews ?U)"
    by (simp add: submittedUser_def Let_def pushItemReview_def userItemReviewOf_def
        commentOrEmpty_def)
  have ci: "priorReview rd d = None \<Longrightarrow> i_reviewCount ?I = i_reviewCount it + 1"
    by (simp add: submittedItem_def Let_def pushReview_def incItemCount_def)
  have cu: "priorReview rd d = None \<Longrightarrow> u_reviewCount ?U = u_reviewCount u + 1"
    by (simp add: submittedUser_def Let_def pushItemReview_def incUserCount_def)
  have st: "status (fst (reviews_POST session rd rid d)) = 201" by (simp add: sh)
  show ?thesis
    using st fi fu mi mu ci cu by (simp add: priorReview_None_iff)
qed

lemma exStore_finds:
  "findOne (\<lambda>x. i_id x = ObjectId (rd_itemId exSubmission)) (items exStore) = Some exDesk"
  "findOne (\<lambda>v. u_username v = rd_username exSubmission) (users exStore) = Some exAlice"
  by (simp_all add: findOne_def exStore_def exSubmission_def exItemId_valid exDesk_def
      exAlice_def)

theorem submit_embeds_both_copies_witness:
  "ObjectId_isValid (rd_itemId exSubmission)
   \<and> rd_rating exSubmission = JNumber (Fin (of_int 8))
   \<and> findOne (\<lambda>x. i_id x = ObjectId (rd_itemId exSubmission)) (items exStore) = Some exDesk
   \<and> findOne (\<lambda>v. u_username v = rd_username exSubmission) (users exStore) = Some exAlice
   \<and> \<not> list_ex (\<lambda>x. i_id x = ObjectId (rd_itemId exSubmission)
                     \<and> hasReviewBy (rd_username exSubmission) x) (items exStore)
   \<and> status (fst (reviews_POST (Some ''alice'') exSubmission ''r1'' exStore)) = 201
   \<and> (\<exists>it'. findOne (\<lambda>x. i_id x = ObjectId (rd_itemId exSubmission))
               (items (snd (reviews_POST (Some ''alice'') exSubmission ''r1'' exStore))) = Some it'
         \<and> \<lparr>ir_id = ''r1'', ir_username = ''alice'', ir_rating = JNumber (Fin 8),
             ir_comment = ''great''\<rparr> \<in> set (i_reviews it')
         \<and> i_reviewCount it' = 1)
   \<and> (\<exists>u'. findOne (\<lambda>v. u_username v = rd_username exSubmission)
               (users (snd (reviews_POST (Some ''alice'') exSubmission ''r1'' exStore))) = Some u'
         \<and> \<lparr>ur_id = ''r1'', ur_itemId = exItemId, ur_itemName = ''Walnut desk'',
             ur_rating = JNumber (Fin 8), ur_comment = ''great''\<rparr> \<in> set (u_itemReviews u')
         \<and> u_reviewCount u' = 1)"
proof -
  have v: "ObjectId_isValid (rd_itemId exSubmission)"
    by (simp add: exSubmission_def exItemId_valid)
  have r: "rd_rating exSubmission = JNumber (Fin (of_int 8))" by (simp add: exSubmission_def)
  have s: "Some ''alice'' = Some (rd_username exSubmission)" "rd_username exSubmission \<noteq> []"
    by (simp_all add: exSubmission_def)
  have f: "\<not> list_ex (\<lambda>x. i_id x = ObjectId (rd_itemId exSubmission)
                     \<and> hasReviewBy (rd_username exSubmission) x) (items exStore)"
    by (simp add: exStore_def exDesk_def hasReviewBy_def)
  have c: "i_reviewCount exDesk = 0" "u_reviewCount exAlice = 0" "i_name exDesk = ''Walnut desk''"
    by (simp_all add: exDesk_def exAlice_def)
  have e: "rd_username exSubmission = ''alice''" "rd_itemId exSubmission = exItemId"
     "rd_comment exSubmission = Some ''great''"
    by (simp_all add: exSubmission_def)
  from submit_embeds_both_copies [where rid = "''r1''" and k = 8, OF s r _ _ v exStore_finds] f
  show ?thesis using v exStore_finds f c e r by simp 
qed

section \<open>Deletion of a review\<close>

lemma numericDb_item:
  "numericDb d \<Longrightarrow> it \<in> set (items d) \<Longrightarrow> list_all numericRating (map ir_rating (i_reviews it))"
  by (auto simp: numericDb_def list_all_iff)

lemma numericDb_user:
  "numericDb d \<Longrightarrow> u \<in> set (users d) \<Longrightarrow> list_all numericRating (map ur_rating (u_itemReviews u))"
  by (auto simp: numericDb_def list_all_iff)

lemma findOne_mem: "findOne q xs = Some x \<Longrightarrow> x \<in> set xs \<and> q x"
  by (auto simp: findOne_def find_Some_iff)

lemma find_mem: "List.find q xs = Some x \<Longrightarrow> x \<in> set xs \<and> q x"
  by (auto simp: find_Some_iff)

lemma itemRating_shape:
  assumes f: "List.find (\<lambda>x. i_id x = X) its = Some it" and k: "i_id (f it) = X"
    and num: "list_all numericRating (map ir_rating (i_reviews (f it)))"
    and e: "items d = updateDoc (\<lambda>x. i_id x = X) f its"
  shows "reviewsId_updateItemRating d X =
     Some (d\<lparr>items := updateDoc (\<lambda>x. i_id x = X)
              (\<lambda>x. (f it)\<lparr>i_rating := safeAverage (map ir_rating (i_reviews (f it)))\<rparr>) its\<rparr>)"
proof -
  have h: "List.find (\<lambda>x. i_id x = X) (updateDoc (\<lambda>x. i_id x = X) f its) = Some (f it)"
    using find_updateDoc_hit [where q = "\<lambda>x. i_id x = X" and f = f, OF f] k by simp
  have c: "updateDoc (\<lambda>x. i_id x = X) (\<lambda>y. y\<lparr>i_rating := a\<rparr>) (updateDoc (\<lambda>x. i_id x = X) f its)
         = updateDoc (\<lambda>x. i_id x = X) (\<lambda>y. (f y)\<lparr>i_rating := a\<rparr>) its" for a
    using updateDoc_comp [where q = "\<lambda>x. i_id x = X" and f = f and g = "\<lambda>y. y\<lparr>i_rating := a\<rparr>", OF f] k
    by simp
  show ?thesis
    apply (simp add: reviewsId_updateItemRating_def findOne_def e h simpleAverage_numeric [OF num] c)
    apply (subst updateDoc_const [OF f])
    apply simp
    done
qed

lemma userRating_shape:
  assumes f: "List.find (\<lambda>v. u_username v = n) us = Some u" and k: "u_username (g u) = n"
    and num: "list_all numericRating (map ur_rating (u_itemReviews (g u)))"
    and e: "users d = updateDoc (\<lambda>v. u_username v = n) g us"
  shows "reviewsId_updateUserRating d n =
     Some (d\<lparr>users := updateDoc (\<lambda>v. u_username v = n)
              (\<lambda>v. (g u)\<lparr>u_averageRating := safeAverage (map ur_rating (u_itemReviews (g u)))\<rparr>) us\<rparr>)"
proof -
  have h: "List.find (\<lambda>v. u_username v = n) (updateDoc (\<lambda>v. u_username v = n) g us) = Some (g u)"
    using find_updateDoc_hit [where q = "\<lambda>v. u_username v = n" and f = g, OF f] k by simp
  have c: "updateDoc (\<lambda>v. u_username v = n) (\<lambda>y. y\<lparr>u_averageRating := a\<rparr>)
             (updateDoc (\<lambda>v. u_username v = n) g us)
         = updateDoc (\<lambda>v. u_username v = n) (\<lambda>y. (g y)\<lparr>u_averageRating := a\<rparr>) us" for a
    using updateDoc_comp [where q = "\<lambda>v. u_username v = n" and f = g
        and g = "\<lambda>y. y\<lparr>u_averageRating := a\<rparr>", OF f] k
    by simp
  show ?thesis
    apply (simp add: reviewsId_updateUserRating_def findOne_def e h simpleAverage_numeric [OF num] c)
    apply (subst updateDoc_const [OF f])
    apply simp
    done
qed

lemma userRating_absent:
  "List.find (\<lambda>v. u_username v = n) (users d) = None \<Longrightarrow> reviewsId_updateUserRating d n = Some d"
  by (simp add: reviewsId_updateUserRating_def findOne_def)

lemma list_all_numeric_filter:
  "list_all numericRating (map f xs) \<Longrightarrow> list_all numericRating (map f (filter p xs))"
  by (induction xs) auto

lemma DELETE_shape:
  assumes uk: "distinct (map i_id (items d))" and nd: "numericDb d"
    and it: "findOne (hasReviewId rid) (items d) = Some it"
    and r: "List.find (\<lambda>r. ir_id r = rid) (i_reviews it) = Some r"
  shows "reviewsId_DELETE rid d =
     Some (Response 200 ''Review deleted successfully'' NoReview,
           d\<lparr>items := updateDoc (\<lambda>x. i_id x = i_id it) (\<lambda>x. deletedFromItem rid it) (items d),
             users := updateDoc (\<lambda>v. u_username v = ir_username r) (deletedFromUser rid) (users d)\<rparr>)"
proof -
  let ?X = "i_id it" and ?n = "ir_username r"
  let ?f = "\<lambda>x. incItemCount (- 1) (pullReview rid x)"
  let ?g = "\<lambda>v. incUserCount (- 1) (pullItemReview rid v)"
  have mem: "it \<in> set (items d)" using it by (simp add: findOne_mem)
  have fi: "List.find (\<lambda>x. i_id x = ?X) (items d) = Some it"
    using find_key_distinct [OF uk mem] by simp
  have ne: "?f it \<noteq> it"
  proof
    assume "?f it = it"
    then have "i_reviewCount (?f it) = i_reviewCount it" by simp
    then show False by (simp add: incItemCount_def pullReview_def)
  qed
  have mc: "fst (deleteItemWrite ?X rid (items d)) = 1"
    using fi ne by (simp add: deleteItemWrite_def modifiedCount_def)
  have kf: "i_id (?f it) = ?X" by (simp add: incItemCount_def pullReview_def)
  have numi: "list_all numericRating (map ir_rating (i_reviews (?f it)))"
    using numericDb_item [OF nd mem]
    by (simp add: incItemCount_def pullReview_def list_all_numeric_filter)
  have di: "(?f it)\<lparr>i_rating := safeAverage (map ir_rating (i_reviews (?f it)))\<rparr>
            = deletedFromItem rid it"
    by (simp add: deletedFromItem_def Let_def)
  note ir = itemRating_shape [where f = ?f, OF fi kf numi, simplified di]
  have step1: "reviewsId_updateItemRating
          (d\<lparr>items := snd (deleteItemWrite ?X rid (items d)),
             users := snd (deleteUserWrite ?n rid (users d))\<rparr>) ?X
        = Some (d\<lparr>items := updateDoc (\<lambda>x. i_id x = ?X) (\<lambda>x. deletedFromItem rid it) (items d),
                  users := snd (deleteUserWrite ?n rid (users d))\<rparr>)"
    by (subst ir) (simp_all add: deleteItemWrite_def)
  have step2: "reviewsId_updateUserRating
          (d\<lparr>items := its, users := snd (deleteUserWrite ?n rid (users d))\<rparr>) ?n
        = Some (d\<lparr>items := its,
                  users := updateDoc (\<lambda>v. u_username v = ?n) (deletedFromUser rid) (users d)\<rparr>)"
    for its
  proof (cases "List.find (\<lambda>v. u_username v = ?n) (users d)")
    case None
    then show ?thesis
      using userRating_absent [of ?n "d\<lparr>items := its, users := users d\<rparr>"]
      by (simp add: deleteUserWrite_def updateDoc_miss)
  next
    case (Some u)
    have memu: "u \<in> set (users d)" using Some by (simp add: find_mem)
    have kg: "u_username (?g u) = ?n"
      using Some by (auto simp: incUserCount_def pullItemReview_def find_Some_iff)
    have numu: "list_all numericRating (map ur_rating (u_itemReviews (?g u)))"
      using numericDb_user [OF nd memu]
      by (simp add: incUserCount_def pullItemReview_def list_all_numeric_filter)
    have du: "(?g u)\<lparr>u_averageRating := safeAverage (map ur_rating (u_itemReviews (?g u)))\<rparr>
            = deletedFromUser rid u"
      by (simp add: deletedFromUser_def Let_def)
    show ?thesis
      by (subst userRating_shape [where g = ?g, OF Some kg numu])
        (simp_all add: deleteUserWrite_def du updateDoc_const [OF Some, of "deletedFromUser rid"])
  qed
  show ?thesis
    using it r mc step1 step2
    by (simp add: reviewsId_DELETE_def Let_def)
qed

lemma DELETE_notFound:
  "findOne (hasReviewId rid) (items d) = None \<Longrightarrow>
     reviewsId_DELETE rid d = Some (Response 404 ''Review not found in any item'' NoReview, d)"
  by (simp add: reviewsId_DELETE_def)








section \<open>Update of a review\<close>

lemma find_None_D: "List.find q xs = None \<Longrightarrow> x \<in> set xs \<Longrightarrow> \<not> q x"
  by (simp add: find_None_iff)

lemma updateDoc_key_conj:
  assumes "distinct (map key xs)" and id: "\<And>x. \<not> p x \<Longrightarrow> f x = x"
  shows "updateDoc (\<lambda>y. key y = k \<and> p y) f xs = updateDoc (\<lambda>y. key y = k) f xs"
  using assms(1)
proof (induction xs)
  case Nil
  show ?case by simp
next
  case (Cons x xs)
  show ?case
  proof (cases "key x = k")
    case True
    then have "\<forall>y \<in> set xs. key y \<noteq> k" using Cons.prems by (auto simp: image_iff)
    then have "List.find (\<lambda>y. key y = k \<and> p y) xs = None" by (auto simp: find_None_iff)
    then have "updateDoc (\<lambda>y. key y = k \<and> p y) f xs = xs" by (rule updateDoc_miss)
    with True id [of x] show ?thesis by (cases "p x") simp_all
  next
    case False
    with Cons show ?thesis by simp
  qed
qed

lemma modifiedCount_key_conj:
  assumes "distinct (map key xs)" and id: "\<And>x. \<not> p x \<Longrightarrow> f x = x"
  shows "modifiedCount (\<lambda>y. key y = k \<and> p y) f xs = modifiedCount (\<lambda>y. key y = k) f xs"
  using assms(1)
proof (induction xs)
  case Nil
  show ?case by (simp add: modifiedCount_def)
next
  case (Cons x xs)
  show ?case
  proof (cases "key x = k")
    case True
    then have "\<forall>y \<in> set xs. key y \<noteq> k" using Cons.prems by (auto simp: image_iff)
    then have "List.find (\<lambda>y. key y = k \<and> p y) xs = None" by (auto simp: find_None_iff)
    with True id [of x] show ?thesis by (cases "p x") (simp_all add: modifiedCount_def)
  next
    case False
    with Cons show ?thesis by (simp add: modifiedCount_def)
  qed
qed

lemma setReviewFields_miss: "\<not> hasReviewId rid it \<Longrightarrow> setReviewFields rid ud it = it"
proof -
  assume "\<not> hasReviewId rid it"
  then have "List.find (\<lambda>r. ir_id r = rid) (i_reviews it) = None"
    by (simp add: hasReviewId_def list_ex_iff find_None_iff)
  then show ?thesis by (simp add: setReviewFields_def updateDoc_miss)
qed

lemma setItemReviewFields_miss:
  "\<not> hasItemReviewId rid u \<Longrightarrow> setItemReviewFields rid ud u = u"
proof -
  assume "\<not> hasItemReviewId rid u"
  then have "List.find (\<lambda>e. ur_id e = rid) (u_itemReviews u) = None"
    by (simp add: hasItemReviewId_def list_ex_iff find_None_iff)
  then show ?thesis by (simp add: setItemReviewFields_def updateDoc_miss)
qed

lemma putItemWrite_key:
  "distinct (map i_id its) \<Longrightarrow>
     putItemWrite X rid ud its =
       (modifiedCount (\<lambda>x. i_id x = X) (setReviewFields rid ud) its,
        updateDoc (\<lambda>x. i_id x = X) (setReviewFields rid ud) its)"
  unfolding putItemWrite_def
  by (simp add: updateDoc_key_conj modifiedCount_key_conj setReviewFields_miss)

lemma putUserWrite_key:
  "distinct (map u_username us) \<Longrightarrow>
     putUserWrite n rid ud us =
       (modifiedCount (\<lambda>v. u_username v = n) (setItemReviewFields rid ud) us,
        updateDoc (\<lambda>v. u_username v = n) (setItemReviewFields rid ud) us)"
  unfolding putUserWrite_def
  by (simp add: updateDoc_key_conj modifiedCount_key_conj setItemReviewFields_miss)

lemma numeric_setItemFields:
  assumes "list_all numericRating (map ir_rating rs)"
    and "ud_rating ud = JUndefined \<or> numericRating (ud_rating ud)"
  shows "list_all numericRating (map ir_rating (updateDoc q (setItemFields ud) rs))"
  using assms by (induction rs) (auto simp: setItemFields_def)

lemma numeric_setUserFields:
  assumes "list_all numericRating (map ur_rating es)"
    and "ud_rating ud = JUndefined \<or> numericRating (ud_rating ud)"
  shows "list_all numericRating (map ur_rating (updateDoc q (setUserFields ud) es))"
  using assms by (induction es) (auto simp: setUserFields_def)

lemma PUT_past_checks:
  assumes v: "validUpdate ud"
    and it: "findOne (hasReviewId rid) (items d) = Some it"
    and r: "List.find (\<lambda>r. ir_id r = rid) (i_reviews it) = Some r"
  shows "reviewsId_PUT rid ud d =
     (let itemUpdateResult = putItemWrite (i_id it) rid ud (items d);
          userUpdateResult = putUserWrite (ir_username r) rid ud (users d);
          d1 = d\<lparr>items := snd itemUpdateResult, users := snd userUpdateResult\<rparr>
      in if fst itemUpdateResult = 0 \<and> fst userUpdateResult = 0 then
           Some (Response 400 ''Failed to update review in either collection'' NoReview, d1)
         else if ud_rating ud \<noteq> JUndefined then
           (case reviewsId_updateItemRating d1 (i_id it) of
              None \<Rightarrow> None
            | Some d2 \<Rightarrow>
                (case reviewsId_updateUserRating d2 (ir_username r) of
                   None \<Rightarrow> None
                 | Some d3 \<Rightarrow> Some (putResponse (i_id it) rid d3, d3)))
         else Some (putResponse (i_id it) rid d1, d1))"
  using v it r by (auto simp: reviewsId_PUT_def validUpdate_def Let_def)

lemma PUT_notFound:
  "validUpdate ud \<Longrightarrow> findOne (hasReviewId rid) (items d) = None \<Longrightarrow>
     reviewsId_PUT rid ud d = Some (Response 404 ''Review not found in any item'' NoReview, d)"
  by (auto simp: reviewsId_PUT_def validUpdate_def)

lemma PUT_shape:
  assumes uk: "uniqueKeys d" and nd: "numericDb d"
    and nr: "ud_rating ud = JUndefined \<or> numericRating (ud_rating ud)"
    and v: "validUpdate ud"
    and it: "findOne (hasReviewId rid) (items d) = Some it"
    and r: "List.find (\<lambda>r. ir_id r = rid) (i_reviews it) = Some r"
    and m: "modifiedCount (\<lambda>x. i_id x = i_id it) (setReviewFields rid ud) (items d) \<noteq> 0
            \<or> modifiedCount (\<lambda>v. u_username v = ir_username r) (setItemReviewFields rid ud) (users d) \<noteq> 0"
  shows "reviewsId_PUT rid ud d =
     Some (putResponse (i_id it) rid
             (d\<lparr>items := updateDoc (\<lambda>x. i_id x = i_id it) (\<lambda>x. updatedItem rid ud it) (items d),
               users := updateDoc (\<lambda>v. u_username v = ir_username r) (updatedUser rid ud) (users d)\<rparr>),
           d\<lparr>items := updateDoc (\<lambda>x. i_id x = i_id it) (\<lambda>x. updatedItem rid ud it) (items d),
             users := updateDoc (\<lambda>v. u_username v = ir_username r) (updatedUser rid ud) (users d)\<rparr>)"
proof -
  let ?X = "i_id it" and ?n = "ir_username r"
  let ?f = "setReviewFields rid ud" and ?g = "setItemReviewFields rid ud"
  have di: "distinct (map i_id (items d))" and du: "distinct (map u_username (users d))"
    using uk by (simp_all add: uniqueKeys_def)
  have mem: "it \<in> set (items d)" using it by (simp add: findOne_mem)
  have fi: "List.find (\<lambda>x. i_id x = ?X) (items d) = Some it"
    by (rule find_key_distinct [OF di mem])
  have wi: "putItemWrite ?X rid ud (items d)
            = (modifiedCount (\<lambda>x. i_id x = ?X) ?f (items d), updateDoc (\<lambda>x. i_id x = ?X) ?f (items d))"
    by (rule putItemWrite_key [OF di])
  have wu: "putUserWrite ?n rid ud (users d)
            = (modifiedCount (\<lambda>v. u_username v = ?n) ?g (users d),
               updateDoc (\<lambda>v. u_username v = ?n) ?g (users d))"
    by (rule putUserWrite_key [OF du])
  have ci: "updateDoc (\<lambda>x. i_id x = ?X) ?f (items d) = updateDoc (\<lambda>x. i_id x = ?X) (\<lambda>x. ?f it) (items d)"
    by (rule updateDoc_const [OF fi])
  have nm: "(modifiedCount (\<lambda>x. i_id x = ?X) ?f (items d) = 0
              \<and> modifiedCount (\<lambda>v. u_username v = ?n) ?g (users d) = 0) = False"
    using m by blast
  show ?thesis
  proof (cases "ud_rating ud = JUndefined")
    case True
    then have e: "updatedItem rid ud it = ?f it" "updatedUser rid ud = ?g"
      by (auto simp: updatedItem_def updatedUser_def Let_def)
    show ?thesis
      using True by (simp add: PUT_past_checks [OF v it r] wi wu e Let_def ci [symmetric] nm)
  next
    case False
    have kf: "i_id (?f it) = ?X" by (simp add: setReviewFields_def)
    have numi: "list_all numericRating (map ir_rating (i_reviews (?f it)))"
      using numericDb_item [OF nd mem] nr
      by (simp add: setReviewFields_def numeric_setItemFields)
    have ei: "(?f it)\<lparr>i_rating := safeAverage (map ir_rating (i_reviews (?f it)))\<rparr>
              = updatedItem rid ud it"
      using False by (simp add: updatedItem_def Let_def)
    have step1: "reviewsId_updateItemRating
          (d\<lparr>items := updateDoc (\<lambda>x. i_id x = ?X) ?f (items d),
             users := updateDoc (\<lambda>v. u_username v = ?n) ?g (users d)\<rparr>) ?X
        = Some (d\<lparr>items := updateDoc (\<lambda>x. i_id x = ?X) (\<lambda>x. updatedItem rid ud it) (items d),
                  users := updateDoc (\<lambda>v. u_username v = ?n) ?g (users d)\<rparr>)"
      by (subst itemRating_shape [where f = ?f, OF fi kf numi]) (simp_all add: ei)
    have step2: "reviewsId_updateUserRating
          (d\<lparr>items := its, users := updateDoc (\<lambda>v. u_username v = ?n) ?g (users d)\<rparr>) ?n
        = Some (d\<lparr>items := its,
                  users := updateDoc (\<lambda>v. u_username v = ?n) (updatedUser rid ud) (users d)\<rparr>)"
      for its
    proof (cases "List.find (\<lambda>v. u_username v = ?n) (users d)")
      case None
      then show ?thesis
        using userRating_absent [of ?n "d\<lparr>items := its, users := users d\<rparr>"]
        by (simp add: updateDoc_miss)
    next
      case (Some u)
      have memu: "u \<in> set (users d)" using find_mem [OF Some] by simp
      have kg: "u_username (?g u) = ?n"
        using find_mem [OF Some] by (simp add: setItemReviewFields_def)
      have numu: "list_all numericRating (map ur_rating (u_itemReviews (?g u)))"
        using numericDb_user [OF nd memu] nr
        by (simp add: setItemReviewFields_def numeric_setUserFields)
      have eu: "(?g u)\<lparr>u_averageRating := safeAverage (map ur_rating (u_itemReviews (?g u)))\<rparr>
              = updatedUser rid ud u"
        using False by (simp add: updatedUser_def Let_def)
      show ?thesis
        by (subst userRating_shape [where g = ?g, OF Some kg numu])
          (simp_all add: eu updateDoc_const [OF Some, of "updatedUser rid ud"])
    qed
    show ?thesis
      using False by (simp add: PUT_past_checks [OF v it r] wi wu Let_def step1 step2 nm)
  qed
qed

lemma PUT_unmodified:
  assumes uk: "uniqueKeys d" and v: "validUpdate ud"
    and it: "findOne (hasReviewId rid) (items d) = Some it"
    and r: "List.find (\<lambda>r. ir_id r = rid) (i_reviews it) = Some r"
    and m: "modifiedCount (\<lambda>x. i_id x = i_id it) (setReviewFields rid ud) (items d) = 0"
      "modifiedCount (\<lambda>v. u_username v = ir_username r) (setItemReviewFields rid ud) (users d) = 0"
  shows "reviewsId_PUT rid ud d =
     Some (Response 400 ''Failed to update review in either collection'' NoReview, d)"
proof -
  have di: "distinct (map i_id (items d))" and du: "distinct (map u_username (users d))"
    using uk by (simp_all add: uniqueKeys_def)
  show ?thesis
    using m by (simp add: PUT_past_checks [OF v it r] putItemWrite_key [OF di]
        putUserWrite_key [OF du] Let_def modifiedCount_0)
qed

lemma status_putResponse: "status (putResponse X rid d) = 200"
  by (simp add: putResponse_def split: option.splits)




lemma exUpdates_valid: "validUpdate exRerate" "validUpdate exRecomment"
  "numericRating (ud_rating exRerate)" "ud_rating exRecomment = JUndefined"
  "ud_rating exRerate \<noteq> JUndefined"
  by (simp_all add: validUpdate_def exRerate_def exRecomment_def)



section \<open>Lookup scopes and partial writes\<close>

text \<open>
  C10. \<^verbatim>\<open>GET /api/reviews/[id]\<close> looks in the items and then in the users, while
  \<^verbatim>\<open>DELETE\<close> and \<^verbatim>\<open>PUT\<close> look in the items only. For an identifier that no item
  holds and that some user's list holds, \<^verbatim>\<open>GET\<close> answers 200 with that user's entry
  and the user's name, while \<^verbatim>\<open>DELETE\<close>, and \<^verbatim>\<open>PUT\<close> with a body that passes its checks,
  answer 404 and leave the store as it was.
\<close>

theorem lookup_and_mutation_scopes:
  assumes "findOne (hasReviewId rid) (items d) = None"
    and "findOne (hasItemReviewId rid) (users d) = Some u"
    and "validUpdate ud"
  shows "(\<exists>e. List.find (\<lambda>e. ur_id e = rid) (u_itemReviews u) = Some e
            \<and> reviewsId_GET rid d
                = Response 200 []
                    (Review \<lparr>rj_id = rid, rj_itemId = ur_itemId e, rj_itemName = ur_itemName e,
                             rj_username = u_username u, rj_rating = ur_rating e,
                             rj_comment = ur_comment e\<rparr>))
     \<and> reviewsId_DELETE rid d
         = Some (Response 404 ''Review not found in any item'' NoReview, d)
     \<and> reviewsId_PUT rid ud d
         = Some (Response 404 ''Review not found in any item'' NoReview, d)"
proof -
  have "hasItemReviewId rid u" using findOne_mem [OF assms(2)] by simp
  then obtain e where e: "List.find (\<lambda>e. ur_id e = rid) (u_itemReviews u) = Some e"
    using hasItemReviewId_find by blast
  then have "ur_id e = rid" using find_mem by fastforce
  then have "reviewsId_GET rid d
                = Response 200 []
                    (Review \<lparr>rj_id = rid, rj_itemId = ur_itemId e, rj_itemName = ur_itemName e,
                             rj_username = u_username u, rj_rating = ur_rating e,
                             rj_comment = ur_comment e\<rparr>)"
    using assms(1,2) e by (simp add: reviewsId_GET_def)
  with e show ?thesis
    using DELETE_notFound [OF assms(1)] PUT_notFound [OF assms(3) assms(1)] by blast
qed

theorem lookup_and_mutation_scopes_witness:
  "findOne (hasReviewId ''r7'') (items exUserOnly) = None
   \<and> findOne (hasItemReviewId ''r7'') (users exUserOnly) = Some (users exUserOnly ! 1)
   \<and> validUpdate exRerate
   \<and> reviewsId_GET ''r7'' exUserOnly
       = Response 200 []
           (Review \<lparr>rj_id = ''r7'', rj_itemId = exItemId, rj_itemName = ''Walnut desk'',
                    rj_username = ''bob'', rj_rating = JNumber (Fin 5), rj_comment = ''fair''\<rparr>)
   \<and> reviewsId_DELETE ''r7'' exUserOnly
       = Some (Response 404 ''Review not found in any item'' NoReview, exUserOnly)
   \<and> reviewsId_PUT ''r7'' exRerate exUserOnly
       = Some (Response 404 ''Review not found in any item'' NoReview, exUserOnly)"
proof -
  have h: "findOne (hasReviewId ''r7'') (items exUserOnly) = None"
    "findOne (hasItemReviewId ''r7'') (users exUserOnly) = Some (users exUserOnly ! 1)"
    by (simp_all add: findOne_def exUserOnly_def exDesk_def exAlice_def hasReviewId_def
        hasItemReviewId_def)
  have f: "List.find (\<lambda>e. ur_id e = ''r7'') (u_itemReviews (users exUserOnly ! 1))
           = Some \<lparr>ur_id = ''r7'', ur_itemId = exItemId, ur_itemName = ''Walnut desk'',
                   ur_rating = JNumber (Fin 5), ur_comment = ''fair''\<rparr>"
    "u_username (users exUserOnly ! 1) = ''bob''"
    by (simp_all add: exUserOnly_def)
  from lookup_and_mutation_scopes [OF h exUpdates_valid(1)] f h exUpdates_valid(1)
  show ?thesis by auto
qed

lemma deleteItemWrite_modifies:
  assumes "distinct (map i_id (items d))" and "it \<in> set (items d)"
  shows "fst (deleteItemWrite (i_id it) rid (items d)) = 1"
proof -
  let ?f = "\<lambda>x. incItemCount (- 1) (pullReview rid x)"
  have fi: "List.find (\<lambda>x. i_id x = i_id it) (items d) = Some it"
    by (rule find_key_distinct [OF assms])
  have ne: "?f it \<noteq> it"
  proof
    assume "?f it = it"
    then have "i_reviewCount (?f it) = i_reviewCount it" by simp
    then show False by (simp add: incItemCount_def pullReview_def)
  qed
  show ?thesis using fi ne by (simp add: deleteItemWrite_def modifiedCount_def)
qed

text \<open>
  C7, as the code has it. For a review that \<^verbatim>\<open>DELETE\<close> or \<^verbatim>\<open>PUT\<close> has found, the
  operation answers with the error status 400 exactly when neither of its two writes
  modified a document, and with 200 otherwise: also when only one of the two did.
  (Keys are unique and the ratings are numbers.)
\<close>

theorem error_only_when_neither_write_modified:
  assumes "uniqueKeys d" and "numericDb d" and "validUpdate ud"
    and "ud_rating ud = JUndefined \<or> numericRating (ud_rating ud)"
    and "findOne (hasReviewId rid) (items d) = Some it"
    and "List.find (\<lambda>r. ir_id r = rid) (i_reviews it) = Some r"
  shows "map_option (\<lambda>p. status (fst p)) (reviewsId_DELETE rid d)
           = Some (if fst (deleteItemWrite (i_id it) rid (items d)) = 0
                      \<and> fst (deleteUserWrite (ir_username r) rid (users d)) = 0
                   then 400 else 200)
     \<and> map_option (\<lambda>p. status (fst p)) (reviewsId_PUT rid ud d)
           = Some (if fst (putItemWrite (i_id it) rid ud (items d)) = 0
                      \<and> fst (putUserWrite (ir_username r) rid ud (users d)) = 0
                   then 400 else 200)"
proof -
  have di: "distinct (map i_id (items d))" and du: "distinct (map u_username (users d))"
    using assms(1) by (simp_all add: uniqueKeys_def)
  have mem: "it \<in> set (items d)" using findOne_mem [OF assms(5)] by simp
  have del: "map_option (\<lambda>p. status (fst p)) (reviewsId_DELETE rid d)
           = Some (if fst (deleteItemWrite (i_id it) rid (items d)) = 0
                      \<and> fst (deleteUserWrite (ir_username r) rid (users d)) = 0
                   then 400 else 200)"
    by (simp add: DELETE_shape [OF di assms(2) assms(5) assms(6)]
        deleteItemWrite_modifies [OF di mem])
  have put: "map_option (\<lambda>p. status (fst p)) (reviewsId_PUT rid ud d)
           = Some (if fst (putItemWrite (i_id it) rid ud (items d)) = 0
                      \<and> fst (putUserWrite (ir_username r) rid ud (users d)) = 0
                   then 400 else 200)"
  proof (cases "modifiedCount (\<lambda>x. i_id x = i_id it) (setReviewFields rid ud) (items d) = 0
      \<and> modifiedCount (\<lambda>v. u_username v = ir_username r) (setItemReviewFields rid ud) (users d) = 0")
    case True
    then show ?thesis
      using PUT_unmodified [OF assms(1) assms(3) assms(5) assms(6)]
      by (simp add: putItemWrite_key [OF di] putUserWrite_key [OF du])
  next
    case False
    then have m: "modifiedCount (\<lambda>x. i_id x = i_id it) (setReviewFields rid ud) (items d) \<noteq> 0
      \<or> modifiedCount (\<lambda>v. u_username v = ir_username r) (setItemReviewFields rid ud) (users d) \<noteq> 0"
      by auto
    have nm: "(modifiedCount (\<lambda>x. i_id x = i_id it) (setReviewFields rid ud) (items d) = 0
      \<and> modifiedCount (\<lambda>v. u_username v = ir_username r) (setItemReviewFields rid ud) (users d) = 0)
      = False"
      using False by simp
    show ?thesis
      by (simp add: PUT_shape [OF assms(1) assms(2) assms(4) assms(3) assms(5) assms(6) m]
          putItemWrite_key [OF di] putUserWrite_key [OF du] status_putResponse nm)
  qed
  from del put show ?thesis by blast
qed

lemma exOrphan_facts:
  "uniqueKeys exOrphan" "numericDb exOrphan"
  "findOne (hasReviewId ''r1'') (items exOrphan) = Some (hd (items exOrphan))"
  "List.find (\<lambda>r. ir_id r = ''r1'') (i_reviews (hd (items exOrphan)))
     = Some \<lparr>ir_id = ''r1'', ir_username = ''carol'', ir_rating = JNumber (Fin 8),
             ir_comment = ''great''\<rparr>"
  "i_id (hd (items exOrphan)) = exItemId"
  by (simp_all add: exOrphan_def uniqueKeys_def numericDb_def findOne_def hasReviewId_def
      exBob_def)

lemma exOrphan_counts:
  "fst (deleteItemWrite exItemId ''r1'' (items exOrphan)) = 1"
  "fst (deleteUserWrite ''carol'' ''r1'' (users exOrphan)) = 0"
  "fst (putItemWrite exItemId ''r1'' exRerate (items exOrphan)) = 1"
  "fst (putUserWrite ''carol'' ''r1'' exRerate (users exOrphan)) = 0"
  by (simp_all add: exOrphan_def deleteItemWrite_def deleteUserWrite_def putItemWrite_def
      putUserWrite_def modifiedCount_def exBob_def incItemCount_def pullReview_def
      hasReviewId_def setReviewFields_def setItemFields_def exRerate_def)

theorem error_only_when_neither_write_modified_witness:
  "uniqueKeys exOrphan \<and> numericDb exOrphan \<and> validUpdate exRerate
   \<and> numericRating (ud_rating exRerate)
   \<and> findOne (hasReviewId ''r1'') (items exOrphan) = Some (hd (items exOrphan))
   \<and> map_option (\<lambda>p. status (fst p)) (reviewsId_DELETE ''r1'' exOrphan) = Some 200
   \<and> map_option (\<lambda>p. status (fst p)) (reviewsId_PUT ''r1'' exRerate exOrphan) = Some 200"
proof -
  have nr: "ud_rating exRerate = JUndefined \<or> numericRating (ud_rating exRerate)"
    using exUpdates_valid(3) by simp
  from error_only_when_neither_write_modified [OF exOrphan_facts(1,2) exUpdates_valid(1) nr
      exOrphan_facts(3,4)]
  show ?thesis
    using exOrphan_facts exOrphan_counts exUpdates_valid by simp
qed

text \<open>
  C7, as stated, fails. In a store whose item carries a review by a user who is not in
  the users collection, the write to the item modifies its document and the write to the
  users modifies none; \<^verbatim>\<open>DELETE\<close> and \<^verbatim>\<open>PUT\<close> both answer 200.
\<close>

theorem partial_success_reported_as_success:
  "fst (deleteItemWrite exItemId ''r1'' (items exOrphan)) = 1
   \<and> fst (deleteUserWrite ''carol'' ''r1'' (users exOrphan)) = 0
   \<and> map_option (\<lambda>p. status (fst p)) (reviewsId_DELETE ''r1'' exOrphan) = Some 200
   \<and> fst (putItemWrite exItemId ''r1'' exRerate (items exOrphan)) = 1
   \<and> fst (putUserWrite ''carol'' ''r1'' exRerate (users exOrphan)) = 0
   \<and> map_option (\<lambda>p. status (fst p)) (reviewsId_PUT ''r1'' exRerate exOrphan) = Some 200"
proof -
  have di: "distinct (map i_id (items exOrphan))"
    using exOrphan_facts(1) by (simp add: uniqueKeys_def)
  have nr: "ud_rating exRerate = JUndefined \<or> numericRating (ud_rating exRerate)"
    using exUpdates_valid(3) by simp
  have m: "modifiedCount (\<lambda>x. i_id x = i_id (hd (items exOrphan)))
             (setReviewFields ''r1'' exRerate) (items exOrphan) \<noteq> 0
           \<or> modifiedCount (\<lambda>v. u_username v = ir_username \<lparr>ir_id = ''r1'', ir_username = ''carol'',
                 ir_rating = JNumber (Fin 8), ir_comment = ''great''\<rparr>)
               (setItemReviewFields ''r1'' exRerate) (users exOrphan) \<noteq> 0"
    by (simp add: exOrphan_def modifiedCount_def setReviewFields_def setItemFields_def
        exRerate_def)
  have "map_option (\<lambda>p. status (fst p)) (reviewsId_DELETE ''r1'' exOrphan) = Some 200"
    by (simp add: DELETE_shape [OF di exOrphan_facts(2,3,4)])
  moreover have "map_option (\<lambda>p. status (fst p)) (reviewsId_PUT ''r1'' exRerate exOrphan) = Some 200"
    by (simp add: PUT_shape [OF exOrphan_facts(1,2) nr exUpdates_valid(1) exOrphan_facts(3,4) m]
        status_putResponse)
  ultimately show ?thesis using exOrphan_counts by simp
qed

section \<open>Deletion of an item\<close>
























section \<open>A run with a rating kept as text\<close>

lemma exItemId_nonempty: "exItemId \<noteq> []"
  by (simp add: exItemId_def)

lemma exAfterText_value:
  "exAfterText =
     \<lparr>items =
        [\<lparr>i_id = exItemId, i_name = ''Walnut desk'', i_rating = Fin 7, i_reviewCount = 1,
          i_reviews =
            [\<lparr>ir_id = ''r1'', ir_username = ''alice'', ir_rating = JString ''7'',
              ir_comment = []\<rparr>]\<rparr>],
      users =
        [\<lparr>u_username = ''alice'', u_averageRating = Fin 7, u_reviewCount = 1,
          u_itemReviews =
            [\<lparr>ur_id = ''r1'', ur_itemId = exItemId, ur_itemName = ''Walnut desk'',
              ur_rating = JString ''7'', ur_comment = []\<rparr>]\<rparr>,
         exBob]\<rparr>"
proof -
  have chk: "passesChecks (Some ''alice'') exTextSubmission"
    by (simp add: passesChecks_def exTextSubmission_def missingFields_def exItemId_valid
        exItemId_nonempty parse_defs)
  have it: "findOne (\<lambda>it. i_id it = ObjectId (rd_itemId exTextSubmission)) (items exStore)
            = Some exDesk"
    and u: "findOne (\<lambda>u. u_username u = rd_username exTextSubmission) (users exStore)
            = Some exAlice"
    by (simp_all add: findOne_def exStore_def exTextSubmission_def exItemId_valid exDesk_def
        exAlice_def)
  have pr: "priorReview exTextSubmission exStore = None"
    by (simp add: priorReview_def findOne_def exStore_def exDesk_def hasReviewBy_def)
  have av: "safeAverage [JString ''7''] = Fin 7"
    by (simp add: safeAverage_def parse_defs rat_floor_numeral_div)
  show ?thesis
    unfolding exAfterText_def POST_shape [OF chk it u]
    apply (simp add: submittedItem_def submittedUser_def pr Let_def)
    apply (simp add: pushReview_def pushItemReview_def incItemCount_def incUserCount_def
        itemReviewOf_def userItemReviewOf_def commentOrEmpty_def av exStore_def exDesk_def
        exAlice_def exTextSubmission_def exItemId_valid)
    done
qed


lemma exMixed_value:
  "exMixed =
     \<lparr>items =
        [\<lparr>i_id = exItemId, i_name = ''Walnut desk'', i_rating = Fin 6, i_reviewCount = 2,
          i_reviews =
            [\<lparr>ir_id = ''r1'', ir_username = ''alice'', ir_rating = JString ''7'',
              ir_comment = []\<rparr>,
             \<lparr>ir_id = ''r2'', ir_username = ''bob'', ir_rating = JNumber (Fin 5),
              ir_comment = []\<rparr>]\<rparr>],
      users =
        [\<lparr>u_username = ''alice'', u_averageRating = Fin 7, u_reviewCount = 1,
          u_itemReviews =
            [\<lparr>ur_id = ''r1'', ur_itemId = exItemId, ur_itemName = ''Walnut desk'',
              ur_rating = JString ''7'', ur_comment = []\<rparr>]\<rparr>,
         \<lparr>u_username = ''bob'', u_averageRating = Fin 5, u_reviewCount = 1,
          u_itemReviews =
            [\<lparr>ur_id = ''r2'', ur_itemId = exItemId, ur_itemName = ''Walnut desk'',
              ur_rating = JNumber (Fin 5), ur_comment = []\<rparr>]\<rparr>]\<rparr>"
proof -
  let ?it = "hd (items exAfterText)"
  have chk: "passesChecks (Some ''bob'') exBobSubmission"
    by (simp add: passesChecks_def exBobSubmission_def missingFields_def exItemId_valid
        exItemId_nonempty)
  have it: "findOne (\<lambda>it. i_id it = ObjectId (rd_itemId exBobSubmission)) (items exAfterText)
            = Some ?it"
    and u: "findOne (\<lambda>u. u_username u = rd_username exBobSubmission) (users exAfterText)
            = Some exBob"
    by (simp_all add: findOne_def exAfterText_value exBobSubmission_def exItemId_valid exBob_def)
  have pr: "priorReview exBobSubmission exAfterText = None"
    by (simp add: priorReview_def findOne_def exAfterText_value hasReviewBy_def
        exBobSubmission_def)
  have av: "safeAverage [JString ''7'', JNumber (Fin 5)] = Fin 6"
    "safeAverage [JNumber (Fin 5)] = Fin 5"
    by (simp_all add: safeAverage_def parse_defs rat_floor_numeral_div)
  show ?thesis
    unfolding exMixed_def POST_shape [OF chk it u]
    apply (simp add: submittedItem_def submittedUser_def pr Let_def)
    apply (simp add: pushReview_def pushItemReview_def incItemCount_def incUserCount_def
        itemReviewOf_def userItemReviewOf_def commentOrEmpty_def av exAfterText_value
        exBob_def exBobSubmission_def exItemId_valid)
    done
qed

lemma exMixed_reachable: "reachable exMixed"
proof -
  have f0: "freshStore exStore"
    by (simp add: freshStore_def uniqueKeys_def exStore_def exDesk_def exAlice_def exBob_def)
  have f1: "freshReviewId ''r1'' exStore"
    by (simp add: freshReviewId_def exStore_def exDesk_def exAlice_def exBob_def
        hasReviewId_def hasItemReviewId_def)
  have f2: "freshReviewId ''r2'' exAfterText"
    by (simp add: freshReviewId_def exAfterText_value exBob_def hasReviewId_def
        hasItemReviewId_def)
  have "reachable exAfterText"
    unfolding exAfterText_def by (rule reachable.submit [OF reachable.fresh [OF f0] f1])
  then show ?thesis
    unfolding exMixed_def by (rule reachable.submit [OF _ f2])
qed

lemma exMixed_update:
  "reviewsId_PUT ''r2'' exSix exMixed =
     Some (Response 200 ''Review updated successfully''
             (Review \<lparr>rj_id = ''r2'', rj_itemId = exItemId, rj_itemName = ''Walnut desk'',
                      rj_username = ''bob'', rj_rating = JNumber (Fin 6), rj_comment = []\<rparr>),
           \<lparr>items =
              [\<lparr>i_id = exItemId, i_name = ''Walnut desk'', i_rating = Fin 38,
                i_reviewCount = 2,
                i_reviews =
                  [\<lparr>ir_id = ''r1'', ir_username = ''alice'', ir_rating = JString ''7'',
                    ir_comment = []\<rparr>,
                   \<lparr>ir_id = ''r2'', ir_username = ''bob'', ir_rating = JNumber (Fin 6),
                    ir_comment = []\<rparr>]\<rparr>],
            users =
              [\<lparr>u_username = ''alice'', u_averageRating = Fin 7, u_reviewCount = 1,
                u_itemReviews =
                  [\<lparr>ur_id = ''r1'', ur_itemId = exItemId, ur_itemName = ''Walnut desk'',
                    ur_rating = JString ''7'', ur_comment = []\<rparr>]\<rparr>,
               \<lparr>u_username = ''bob'', u_averageRating = Fin 6, u_reviewCount = 1,
                u_itemReviews =
                  [\<lparr>ur_id = ''r2'', ur_itemId = exItemId, ur_itemName = ''Walnut desk'',
                    ur_rating = JNumber (Fin 6), ur_comment = []\<rparr>]\<rparr>]\<rparr>)"
proof -
  have s1: "simpleAverage [JString ''7'', JNumber (Fin 6)] = Some (Fin 38)"
    by (simp add: simpleAverage_def parse_defs rat_floor_numeral_div)
  have s2: "simpleAverage [JNumber (Fin 6)] = Some (Fin 6)"
    by (simp add: simpleAverage_def rat_floor_numeral_div)
  show ?thesis
    by (simp add: reviewsId_PUT_def exSix_def exMixed_value findOne_def hasReviewId_def
        hasItemReviewId_def putItemWrite_def putUserWrite_def modifiedCount_def
        setReviewFields_def setItemReviewFields_def setItemFields_def setUserFields_def
        reviewsId_updateItemRating_def reviewsId_updateUserRating_def s1 s2 putResponse_def
        Let_def)
qed

text \<open>
  C2. After a run in which every operation succeeds, the stored rating of an item can
  differ from the aggregate of its stored reviews. From the small store, alice submits the
  rating \<^verbatim>\<open>"7"\<close> (a text, which the checks of \<^verbatim>\<open>POST\<close> let through and the aggregator
  reads as 7), bob submits 5, and bob's review is updated to 6. Every step succeeds, yet
  the helper of \<^verbatim>\<open>PUT\<close> joins \<^verbatim>\<open>0\<close>, \<^verbatim>\<open>"7"\<close> and \<^verbatim>\<open>6\<close> into the text \<^verbatim>\<open>"076"\<close> and
  stores the rating 38 on the item, whose reviews aggregate to 6.5.
\<close>

theorem stale_rating_after_text_rating:
  "status (fst (reviews_POST (Some ''alice'') exTextSubmission ''r1'' exStore)) = 201
   \<and> status (fst (reviews_POST (Some ''bob'') exBobSubmission ''r2'' exAfterText)) = 201
   \<and> reachable exMixed
   \<and> map_option (\<lambda>p. status (fst p)) (reviewsId_PUT ''r2'' exSix exMixed) = Some 200
   \<and> map_option (\<lambda>p. map i_rating (items (snd p))) (reviewsId_PUT ''r2'' exSix exMixed)
       = Some [Fin 38]
   \<and> map_option (\<lambda>p. map (\<lambda>it. safeAverage (map ir_rating (i_reviews it))) (items (snd p)))
        (reviewsId_PUT ''r2'' exSix exMixed)
       = Some [Fin (13 / 2)]"
proof -
  have c1: "passesChecks (Some ''alice'') exTextSubmission"
    by (simp add: passesChecks_def exTextSubmission_def missingFields_def exItemId_valid
        exItemId_nonempty parse_defs)
  have i1: "findOne (\<lambda>it. i_id it = ObjectId (rd_itemId exTextSubmission)) (items exStore)
            = Some exDesk"
    and u1: "findOne (\<lambda>u. u_username u = rd_username exTextSubmission) (users exStore)
            = Some exAlice"
    by (simp_all add: findOne_def exStore_def exTextSubmission_def exItemId_valid exDesk_def
        exAlice_def)
  have c2: "passesChecks (Some ''bob'') exBobSubmission"
    by (simp add: passesChecks_def exBobSubmission_def missingFields_def exItemId_valid
        exItemId_nonempty)
  have i2: "findOne (\<lambda>it. i_id it = ObjectId (rd_itemId exBobSubmission)) (items exAfterText)
            = Some (hd (items exAfterText))"
    and u2: "findOne (\<lambda>u. u_username u = rd_username exBobSubmission) (users exAfterText)
            = Some exBob"
    by (simp_all add: findOne_def exAfterText_value exBobSubmission_def exItemId_valid
        exBob_def)
  have s1: "status (fst (reviews_POST (Some ''alice'') exTextSubmission ''r1'' exStore)) = 201"
    by (simp add: POST_shape [OF c1 i1 u1])
  have s2: "status (fst (reviews_POST (Some ''bob'') exBobSubmission ''r2'' exAfterText)) = 201"
    by (simp add: POST_shape [OF c2 i2 u2])
  have av: "safeAverage [JString ''7'', JNumber (Fin 6)] = Fin (13 / 2)"
    by (simp add: safeAverage_def parse_defs rat_floor_numeral_div)
  show ?thesis
    using s1 s2 exMixed_reachable av by (simp add: exMixed_update)
qed

section \<open>The invariant on reachable stores\<close>

























































section \<open>One review per user and item\<close>





end
